theory Spec2Isabelle
  imports Complex_Main
begin

section \<open>Text\<close>

text \<open>
  A Python \<open>str\<close> is a sequence of Unicode code points.  A code point is modelled by its
  number and a string by the list of its code points, so that the Cyrillic column
  headers and resource names of the sheet are ordinary strings of the model.
  \<open>u ''abc''\<close> writes an ASCII literal.
\<close>

type_synonym uchar = nat
type_synonym ustring = "nat list"

abbreviation u :: "string \<Rightarrow> ustring" where
  "u s \<equiv> map of_char s"

definition isspace :: "uchar \<Rightarrow> bool" where
  \<comment> \<open>the code points for which \<open>str.isspace\<close> holds, which are those \<open>str.strip\<close> removes\<close>
  "isspace c \<longleftrightarrow>
     (9 \<le> c \<and> c \<le> 13) \<or> (28 \<le> c \<and> c \<le> 32) \<or> c = 133 \<or> c = 160 \<or> c = 5760 \<or>
     (8192 \<le> c \<and> c \<le> 8202) \<or> c = 8232 \<or> c = 8233 \<or> c = 8239 \<or> c = 8287 \<or> c = 12288"

definition strip :: "ustring \<Rightarrow> ustring" where
  "strip s = rev (dropWhile isspace (rev (dropWhile isspace s)))"

text \<open>
  \<open>str.lower\<close> on the capitals of Basic Latin (A-Z), of the Latin-1 supplement (U+00C0 to
  U+00DE without the multiplication sign) and of Cyrillic from U+0400 to U+042F, where it
  maps code point to code point.  Every other code point is left as it is; Python lowers
  the capitals of other scripts too.
\<close>

definition lower_char :: "uchar \<Rightarrow> uchar" where
  "lower_char c =
     (if (65 \<le> c \<and> c \<le> 90) \<or> (192 \<le> c \<and> c \<le> 222 \<and> c \<noteq> 215) \<or> (1040 \<le> c \<and> c \<le> 1071)
      then c + 32
      else if 1024 \<le> c \<and> c \<le> 1039 then c + 80
      else c)"

definition lower :: "ustring \<Rightarrow> ustring" where
  "lower s = map lower_char s"

text \<open>
  \<open>str.isdigit\<close>: the string is not empty and every character is a digit.  Below U+0100
  the digits are 0-9 and the superscripts two, three and one; digits of other scripts
  are outside the model.
\<close>

definition isdigit_char :: "uchar \<Rightarrow> bool" where
  "isdigit_char c \<longleftrightarrow> (48 \<le> c \<and> c \<le> 57) \<or> c = 178 \<or> c = 179 \<or> c = 185"

definition isdigit :: "ustring \<Rightarrow> bool" where
  "isdigit s \<longleftrightarrow> s \<noteq> [] \<and> list_all isdigit_char s"

text \<open>
  \<open>int(s)\<close> in base ten: surrounding whitespace is dropped, one sign may lead, and single
  underscores may stand between digits.  \<open>None\<close> is the \<open>ValueError\<close>.  Only the digits
  0-9 are read, and the interpreter's optional limit on the number of digits is not
  modelled.
\<close>

fun int_digits :: "int \<Rightarrow> bool \<Rightarrow> ustring \<Rightarrow> int option" where
  "int_digits acc prev [] = (if prev then Some acc else None)"
| "int_digits acc prev (c # cs) =
     (if 48 \<le> c \<and> c \<le> 57 then int_digits (acc * 10 + (int c - 48)) True cs
      else if c = 95 \<and> prev then int_digits acc False cs
      else None)"

definition py_int :: "ustring \<Rightarrow> int option" where
  "py_int s =
     (case strip s of
        [] \<Rightarrow> None
      | c # cs \<Rightarrow>
          if c = 45 then map_option uminus (int_digits 0 False cs)
          else if c = 43 then int_digits 0 False cs
          else int_digits 0 False (c # cs))"

text \<open>\<open>s in t\<close> for strings: \<open>s\<close> occurs in \<open>t\<close> as a contiguous run.\<close>

fun starts_with :: "ustring \<Rightarrow> ustring \<Rightarrow> bool" where
  "starts_with t [] = True"
| "starts_with [] (c # s) = False"
| "starts_with (d # t) (c # s) = (d = c \<and> starts_with t s)"

fun contains :: "ustring \<Rightarrow> ustring \<Rightarrow> bool" where
  "contains [] s = (s = [])"
| "contains (d # t) s = (starts_with (d # t) s \<or> contains t s)"

text \<open>\<open>t.replace(a, b)\<close> for single characters \<open>a\<close> and \<open>b\<close>.\<close>

definition replace_char :: "uchar \<Rightarrow> uchar \<Rightarrow> ustring \<Rightarrow> ustring" where
  "replace_char a b t = map (\<lambda>c. if c = a then b else c) t"

text \<open>\<open>t.split(sep)\<close> for a single character: every occurrence splits, empty pieces are kept.\<close>

fun split_on :: "uchar \<Rightarrow> ustring \<Rightarrow> ustring list" where
  "split_on sep [] = [[]]"
| "split_on sep (c # cs) =
     (if c = sep then [] # split_on sep cs
      else (case split_on sep cs of [] \<Rightarrow> [[c]] | w # ws \<Rightarrow> (c # w) # ws))"

text \<open>\<open>t.split(sep, 1)\<close> and \<open>t.rsplit(sep, 1)\<close>: at most one split, at the first or the last \<open>sep\<close>.\<close>

definition split1 :: "uchar \<Rightarrow> ustring \<Rightarrow> ustring list" where
  "split1 sep t =
     (if sep \<in> set t
      then [takeWhile (\<lambda>c. c \<noteq> sep) t, tl (dropWhile (\<lambda>c. c \<noteq> sep) t)]
      else [t])"

definition rsplit1 :: "uchar \<Rightarrow> ustring \<Rightarrow> ustring list" where
  "rsplit1 sep t = rev (map rev (split1 sep (rev t)))"

section \<open>Dictionaries\<close>

text \<open>
  A Python \<open>dict\<close> keeps its keys in insertion order, and the order is observed wherever
  the code iterates over \<open>items()\<close>.  A dictionary is an association list with distinct
  keys; assigning to a key that is present replaces its value in place.
\<close>

type_synonym ('k, 'v) dict = "('k \<times> 'v) list"

fun dict_set :: "('k, 'v) dict \<Rightarrow> 'k \<Rightarrow> 'v \<Rightarrow> ('k, 'v) dict" where
  "dict_set [] k v = [(k, v)]"
| "dict_set ((k', v') # d) k v =
     (if k' = k then (k, v) # d else (k', v') # dict_set d k v)"

definition dict_get :: "('k, 'v) dict \<Rightarrow> 'k \<Rightarrow> 'v \<Rightarrow> 'v" where
  \<comment> \<open>\<open>d.get(k, default)\<close>\<close>
  "dict_get d k dflt = (case map_of d k of Some v \<Rightarrow> v | None \<Rightarrow> dflt)"

section \<open>Parsing a resource list\<close>

text \<open>
  \<open>parse_resources\<close>, lines 137-162 of main.py.  \<open>parse_chunk\<close> is the body of its loop for
  one chunk: \<open>None\<close> is the \<open>continue\<close> on a blank chunk, \<open>Some (name, cnt_i)\<close> the key and
  value assigned to \<open>res\<close>.
\<close>

definition normalize_separators :: "ustring \<Rightarrow> ustring" where
  "normalize_separators text = foldl (\<lambda>t sep. replace_char sep 59 t) text [59, 44, 10]"

definition int_or_1 :: "ustring \<Rightarrow> int" where
  \<comment> \<open>\<open>try: cnt_i = int(cnt.strip())\<close>, \<open>except: cnt_i = 1\<close>\<close>
  "int_or_1 cnt = (case py_int (strip cnt) of Some n \<Rightarrow> n | None \<Rightarrow> 1)"

definition parse_chunk :: "ustring \<Rightarrow> (ustring \<times> int) option" where
  "parse_chunk chunk0 =
     (let chunk = strip chunk0 in
      if chunk = [] then None
      else
        let (name, cnt) =
              (if 58 \<in> set chunk
               then (split1 58 chunk ! 0, split1 58 chunk ! 1)
               else
                 let tokens = rsplit1 32 (strip chunk) in
                 if length tokens = 2 \<and> isdigit (tokens ! 1)
                 then (tokens ! 0, tokens ! 1)
                 else (chunk, u ''1''));
            cnt_i = int_or_1 cnt
        in Some (strip name, cnt_i))"

fun parse_chunks :: "(ustring, int) dict \<Rightarrow> ustring list \<Rightarrow> (ustring, int) dict" where
  "parse_chunks res [] = res"
| "parse_chunks res (chunk # chunks) =
     (case parse_chunk chunk of
        None \<Rightarrow> parse_chunks res chunks
      | Some (name, cnt_i) \<Rightarrow> parse_chunks (dict_set res name cnt_i) chunks)"

definition parse_resources :: "ustring \<Rightarrow> (ustring, int) dict" where
  "parse_resources text = parse_chunks [] (split_on 59 (normalize_separators text))"

section \<open>Times of day\<close>

text \<open>
  \<open>datetime.time\<close> without a time zone.  Python orders two such values
  lexicographically on hour, minute, second and microsecond.
\<close>

record time =
  hour :: nat
  minute :: nat
  second :: nat
  microsecond :: nat

definition time_lt :: "time \<Rightarrow> time \<Rightarrow> bool" where
  "time_lt a b \<longleftrightarrow>
     hour a < hour b \<or>
     (hour a = hour b \<and>
       (minute a < minute b \<or>
        (minute a = minute b \<and>
          (second a < second b \<or>
           (second a = second b \<and> microsecond a < microsecond b)))))"

definition hm :: "nat \<Rightarrow> nat \<Rightarrow> time" where
  "hm h m = \<lparr>hour = h, minute = m, second = 0, microsecond = 0\<rparr>"

text \<open>\<open>times_overlap\<close>, lines 164-165 of main.py.\<close>

definition times_overlap :: "time \<Rightarrow> time \<Rightarrow> time \<Rightarrow> time \<Rightarrow> bool" where
  "times_overlap s1 e1 s2 e2 \<longleftrightarrow> time_lt s1 e2 \<and> time_lt s2 e1"

section \<open>Dates and the two formats the code parses\<close>

record date =
  year :: nat
  month :: nat
  day :: nat

definition is_dec :: "uchar \<Rightarrow> bool" where
  "is_dec c \<longleftrightarrow> 48 \<le> c \<and> c \<le> 57"

definition dec :: "uchar \<Rightarrow> nat" where
  "dec c = c - 48"

text \<open>
  \<open>datetime.strptime\<close> turns a format into a regular expression, matches it at the start
  of the text and refuses text that is left over.  The directives used by the code are
  \<open>%Y\<close> = \<open>\d\d\d\d\<close>, \<open>%m\<close> = \<open>1[0-2]|0[1-9]|[1-9]\<close>,
  \<open>%d\<close> = \<open>3[01]|[12]\d|0[1-9]|[1-9]| [1-9]\<close>, \<open>%H\<close> = \<open>2[0-3]|[0-1]\d|\d\<close> and
  \<open>%M\<close> = \<open>[0-5]\d|\d\<close>.  Each function below tries the alternatives of one directive
  in order and returns the number read and the rest of the text.  An alternative of two
  characters ends in a digit, so where a \<open>-\<close> or \<open>:\<close> must follow, a shorter alternative
  cannot succeed after a longer one has matched, and the first match is the match.
  Digits are 0-9.
\<close>

fun re_Y :: "ustring \<Rightarrow> (nat \<times> ustring) option" where
  "re_Y (a # b # c # d # r) =
     (if is_dec a \<and> is_dec b \<and> is_dec c \<and> is_dec d
      then Some (1000 * dec a + 100 * dec b + 10 * dec c + dec d, r)
      else None)"
| "re_Y r = None"

fun re_m :: "ustring \<Rightarrow> (nat \<times> ustring) option" where
  "re_m (a # b # r) =
     (if a = 49 \<and> 48 \<le> b \<and> b \<le> 50 then Some (10 + dec b, r)
      else if a = 48 \<and> 49 \<le> b \<and> b \<le> 57 then Some (dec b, r)
      else if 49 \<le> a \<and> a \<le> 57 then Some (dec a, b # r)
      else None)"
| "re_m [a] = (if 49 \<le> a \<and> a \<le> 57 then Some (dec a, []) else None)"
| "re_m [] = None"

fun re_d :: "ustring \<Rightarrow> (nat \<times> ustring) option" where
  "re_d (a # b # r) =
     (if a = 51 \<and> 48 \<le> b \<and> b \<le> 49 then Some (30 + dec b, r)
      else if 49 \<le> a \<and> a \<le> 50 \<and> is_dec b then Some (10 * dec a + dec b, r)
      else if a = 48 \<and> 49 \<le> b \<and> b \<le> 57 then Some (dec b, r)
      else if 49 \<le> a \<and> a \<le> 57 then Some (dec a, b # r)
      else if a = 32 \<and> 49 \<le> b \<and> b \<le> 57 then Some (dec b, r)
      else None)"
| "re_d [a] = (if 49 \<le> a \<and> a \<le> 57 then Some (dec a, []) else None)"
| "re_d [] = None"

fun re_H :: "ustring \<Rightarrow> (nat \<times> ustring) option" where
  "re_H (a # b # r) =
     (if a = 50 \<and> 48 \<le> b \<and> b \<le> 51 then Some (20 + dec b, r)
      else if 48 \<le> a \<and> a \<le> 49 \<and> is_dec b then Some (10 * dec a + dec b, r)
      else if is_dec a then Some (dec a, b # r)
      else None)"
| "re_H [a] = (if is_dec a then Some (dec a, []) else None)"
| "re_H [] = None"

fun re_M :: "ustring \<Rightarrow> (nat \<times> ustring) option" where
  "re_M (a # b # r) =
     (if 48 \<le> a \<and> a \<le> 53 \<and> is_dec b then Some (10 * dec a + dec b, r)
      else if is_dec a then Some (dec a, b # r)
      else None)"
| "re_M [a] = (if is_dec a then Some (dec a, []) else None)"
| "re_M [] = None"

definition is_leap :: "nat \<Rightarrow> bool" where
  "is_leap y \<longleftrightarrow> y mod 4 = 0 \<and> (y mod 100 \<noteq> 0 \<or> y mod 400 = 0)"

definition days_in_month :: "nat \<Rightarrow> nat \<Rightarrow> nat" where
  "days_in_month y m =
     (if m = 2 then (if is_leap y then 29 else 28)
      else if m = 4 \<or> m = 6 \<or> m = 9 \<or> m = 11 then 30
      else 31)"

text \<open>
  \<open>datetime.strptime(s, "%Y-%m-%d").date()\<close> and \<open>datetime.strptime(s, "%H:%M").time()\<close>.
  \<open>None\<close> is the \<open>ValueError\<close>, which is also raised for year 0 and for a day the month
  does not have.
\<close>

definition strptime_date :: "ustring \<Rightarrow> date option" where
  "strptime_date s =
     (case re_Y s of
        Some (y, c1 # r1) \<Rightarrow>
          (if c1 \<noteq> 45 then None
           else case re_m r1 of
             Some (m, c2 # r2) \<Rightarrow>
               (if c2 \<noteq> 45 then None
                else case re_d r2 of
                  Some (d, []) \<Rightarrow>
                    if 1 \<le> y \<and> d \<le> days_in_month y m
                    then Some \<lparr>year = y, month = m, day = d\<rparr>
                    else None
                | _ \<Rightarrow> None)
           | _ \<Rightarrow> None)
      | _ \<Rightarrow> None)"

definition strptime_time :: "ustring \<Rightarrow> time option" where
  "strptime_time s =
     (case re_H s of
        Some (h, c # r) \<Rightarrow>
          (if c \<noteq> 58 then None
           else case re_M r of
             Some (m, []) \<Rightarrow> Some (hm h m)
           | _ \<Rightarrow> None)
      | _ \<Rightarrow> None)"

section \<open>The availability check\<close>

text \<open>
  \<open>check_availability\<close>, lines 167-223 of main.py.  The two sheets it reads first are
  arguments of the model: \<open>inventory\<close> is what \<open>get_inventory()\<close> returned and \<open>bookings\<close>
  what \<open>get_bookings()\<close> returned, one dictionary from column header to cell per ledger
  row.  A cell is the text \<open>str(row[key])\<close>.
\<close>

type_synonym row = "(ustring, ustring) dict"

text \<open>The nested \<open>find_key\<close>: the first key whose lower-case form contains one of \<open>substrs\<close>.\<close>

fun find_key :: "ustring list \<Rightarrow> ustring list \<Rightarrow> ustring option" where
  "find_key [] substrs = None"
| "find_key (k # row_keys) substrs =
     (if list_ex (\<lambda>s. contains (lower k) s) substrs then Some k
      else find_key row_keys substrs)"

text \<open>
  The header fragments the code looks for.  The Cyrillic ones are, in Latin letters,
  data; vremya nachala, nachalo; vremya okonchaniya, konets; resurs, neobkhodim.
\<close>

definition date_substrs :: "ustring list" where
  "date_substrs = [[1076, 1072, 1090, 1072], u ''date'']"

definition start_substrs :: "ustring list" where
  "start_substrs =
     [[1074, 1088, 1077, 1084, 1103, 32, 1085, 1072, 1095, 1072, 1083, 1072],
      u ''start'',
      [1085, 1072, 1095, 1072, 1083, 1086]]"

definition end_substrs :: "ustring list" where
  "end_substrs =
     [[1074, 1088, 1077, 1084, 1103, 32, 1086, 1082, 1086, 1085, 1095, 1072, 1085, 1080, 1103],
      u ''end'',
      [1082, 1086, 1085, 1077, 1094]]"

definition resources_substrs :: "ustring list" where
  "resources_substrs =
     [[1088, 1077, 1089, 1091, 1088, 1089],
      u ''resource'',
      [1085, 1077, 1086, 1073, 1093, 1086, 1076, 1080, 1084]]"

definition falsy :: "ustring option \<Rightarrow> bool" where
  \<comment> \<open>\<open>not key\<close>: the key is \<open>None\<close> or the empty string\<close>
  "falsy k \<longleftrightarrow> k = None \<or> k = Some []"

definition cell :: "row \<Rightarrow> ustring option \<Rightarrow> ustring" where
  \<comment> \<open>\<open>str(row[key])\<close> for a key that \<open>find_key\<close> returned, which is a key of the row\<close>
  "cell r k = (case k of None \<Rightarrow> [] | Some k' \<Rightarrow> dict_get r k' [])"

text \<open>
  The body of the loop over the ledger, up to the point where the row's resources are
  added: \<open>None\<close> is one of the four \<open>continue\<close>s, \<open>Some row_resources\<close> the parsed resources of
  a row that is counted.
\<close>

definition row_resources :: "date \<Rightarrow> time \<Rightarrow> time \<Rightarrow> row \<Rightarrow> (ustring, int) dict option" where
  "row_resources booking_date start_time end_time r =
     (let keys = map fst r;
          date_key = find_key keys date_substrs;
          start_key = find_key keys start_substrs;
          end_key = find_key keys end_substrs;
          resources_key = find_key keys resources_substrs
      in
        if falsy date_key \<or> falsy start_key \<or> falsy end_key \<or> falsy resources_key then None
        else case strptime_date (strip (cell r date_key)) of
          None \<Rightarrow> None
        | Some row_date \<Rightarrow>
            if row_date \<noteq> booking_date then None
            else case strptime_time (strip (cell r start_key)) of
              None \<Rightarrow> None
            | Some row_start \<Rightarrow>
                (case strptime_time (strip (cell r end_key)) of
                   None \<Rightarrow> None
                 | Some row_end \<Rightarrow>
                     if \<not> times_overlap start_time end_time row_start row_end then None
                     else Some (parse_resources (cell r resources_key))))"

text \<open>The inner loop: \<open>conflicts_counts[name] = conflicts_counts.get(name, 0) + cnt\<close>.\<close>

fun add_counts :: "(ustring, int) dict \<Rightarrow> (ustring \<times> int) list \<Rightarrow> (ustring, int) dict" where
  "add_counts conflicts_counts [] = conflicts_counts"
| "add_counts conflicts_counts ((name, cnt) # items) =
     add_counts (dict_set conflicts_counts name (dict_get conflicts_counts name 0 + cnt)) items"

fun count_conflicts ::
  "date \<Rightarrow> time \<Rightarrow> time \<Rightarrow> (ustring, int) dict \<Rightarrow> row list \<Rightarrow> (ustring, int) dict" where
  "count_conflicts booking_date start_time end_time conflicts_counts [] = conflicts_counts"
| "count_conflicts booking_date start_time end_time conflicts_counts (r # bookings) =
     (case row_resources booking_date start_time end_time r of
        None \<Rightarrow> count_conflicts booking_date start_time end_time conflicts_counts bookings
      | Some items \<Rightarrow>
          count_conflicts booking_date start_time end_time (add_counts conflicts_counts items) bookings)"

text \<open>
  The result \<open>(ok, message)\<close>.  A message of the code is a fixed Russian sentence around
  the values it names, and the model keeps those values: the resource for "not in the
  inventory or its quantity is 0", and date, start, end, free count, resource and requested
  count for "only ... free".
\<close>

datatype message =
  NotInInventory ustring
| OnlyFree date time time int ustring int

datatype availability = Available | Unavailable message

text \<open>The search of the inventory for one requested name: \<open>inv_cnt\<close> after the inner loop.\<close>

fun find_inv_cnt :: "(ustring, int) dict \<Rightarrow> ustring \<Rightarrow> int" where
  "find_inv_cnt [] name = 0"
| "find_inv_cnt ((inv_name, inv_num) # inventory) name =
     (if lower (strip inv_name) = lower (strip name) then inv_num
      else find_inv_cnt inventory name)"

fun check_requested ::
  "(ustring, int) dict \<Rightarrow> (ustring, int) dict \<Rightarrow> date \<Rightarrow> time \<Rightarrow> time \<Rightarrow>
   (ustring \<times> int) list \<Rightarrow> availability" where
  "check_requested inventory conflicts_counts booking_date start_time end_time [] = Available"
| "check_requested inventory conflicts_counts booking_date start_time end_time
     ((name, cnt) # requested) =
     (let inv_cnt = find_inv_cnt inventory name in
      if inv_cnt = 0 then Unavailable (NotInInventory name)
      else
        let used = dict_get conflicts_counts name 0;
            free = inv_cnt - used
        in
          if free < cnt
          then Unavailable (OnlyFree booking_date start_time end_time free name cnt)
          else check_requested inventory conflicts_counts booking_date start_time end_time
                 requested)"

definition check_availability ::
  "(ustring, int) dict \<Rightarrow> row list \<Rightarrow> date \<Rightarrow> time \<Rightarrow> time \<Rightarrow> (ustring, int) dict \<Rightarrow>
   availability" where
  "check_availability inventory bookings booking_date start_time end_time requested =
     check_requested inventory
       (count_conflicts booking_date start_time end_time [] bookings)
       booking_date start_time end_time requested"

section \<open>The records that count against a request\<close>

text \<open>
  The vocabulary of the statements about the usage map.  A ledger row is a well-formed
  record when its date, start, end and resources columns are found and its date and both
  times parse; \<open>ledger_record\<close> then gives the parsed date and times and the text of the
  resources cell.  A row is \<open>counted\<close> for a probe when it is a well-formed record of the
  probe's date whose window overlaps the probe's window.
\<close>

definition ledger_record :: "row \<Rightarrow> (date \<times> time \<times> time \<times> ustring) option" where
  "ledger_record r =
     (let keys = map fst r;
          date_key = find_key keys date_substrs;
          start_key = find_key keys start_substrs;
          end_key = find_key keys end_substrs;
          resources_key = find_key keys resources_substrs
      in
        if falsy date_key \<or> falsy start_key \<or> falsy end_key \<or> falsy resources_key then None
        else case strptime_date (strip (cell r date_key)) of
          None \<Rightarrow> None
        | Some row_date \<Rightarrow>
            (case strptime_time (strip (cell r start_key)) of
               None \<Rightarrow> None
             | Some row_start \<Rightarrow>
                 (case strptime_time (strip (cell r end_key)) of
                    None \<Rightarrow> None
                  | Some row_end \<Rightarrow> Some (row_date, row_start, row_end, cell r resources_key))))"

definition counted :: "date \<Rightarrow> time \<Rightarrow> time \<Rightarrow> row \<Rightarrow> bool" where
  "counted booking_date start_time end_time r =
     (case ledger_record r of
        None \<Rightarrow> False
      | Some (row_date, row_start, row_end, text) \<Rightarrow>
          row_date = booking_date \<and> times_overlap start_time end_time row_start row_end)"

definition record_items :: "row \<Rightarrow> (ustring, int) dict" where
  \<comment> \<open>the resources of a record, name to quantity\<close>
  "record_items r =
     (case ledger_record r of
        None \<Rightarrow> []
      | Some (row_date, row_start, row_end, text) \<Rightarrow> parse_resources text)"

section \<open>The ledger sheet\<close>

text \<open>
  \<open>BOOKING_COLUMNS\<close>, lines 32-39 of main.py: the headers of the ledger sheet, in the order
  in which a booking is written.  In Latin letters they read Data provedeniya rabot,
  Imya i familiya sotrudnika(-kov), Neobkhodimye resursy, Vremya nachala rabot,
  Vremya okonchaniya rabot, Imya rukovoditelya proekta.
\<close>

definition BOOKING_COLUMNS :: "ustring list" where
  "BOOKING_COLUMNS =
     [[1044, 1072, 1090, 1072, 32, 1087, 1088, 1086, 1074, 1077, 1076, 1077, 1085, 1080, 1103,
       32, 1088, 1072, 1073, 1086, 1090],
      [1048, 1084, 1103, 32, 1080, 32, 1092, 1072, 1084, 1080, 1083, 1080, 1103, 32, 1089, 1086,
       1090, 1088, 1091, 1076, 1085, 1080, 1082, 1072, 40, 45, 1082, 1086, 1074, 41],
      [1053, 1077, 1086, 1073, 1093, 1086, 1076, 1080, 1084, 1099, 1077, 32, 1088, 1077, 1089,
       1091, 1088, 1089, 1099],
      [1042, 1088, 1077, 1084, 1103, 32, 1085, 1072, 1095, 1072, 1083, 1072, 32, 1088, 1072,
       1073, 1086, 1090],
      [1042, 1088, 1077, 1084, 1103, 32, 1086, 1082, 1086, 1085, 1095, 1072, 1085, 1080, 1103,
       32, 1088, 1072, 1073, 1086, 1090],
      [1048, 1084, 1103, 32, 1088, 1091, 1082, 1086, 1074, 1086, 1076, 1080, 1090, 1077, 1083,
       1103, 32, 1087, 1088, 1086, 1077, 1082, 1090, 1072]]"

text \<open>
  \<open>get_all_records\<close> of the sheet library pairs the header row with the cells of each
  later row.  A sheet is its header row and its data rows, newest first.  The headers of
  a sheet are distinct, and a cell is read back as the text that was written into it.
\<close>

record sheet =
  header :: "ustring list"
  data_rows :: "ustring list list"

definition get_all_records :: "sheet \<Rightarrow> row list" where
  "get_all_records w = map (\<lambda>cells. zip (header w) cells) (data_rows w)"

text \<open>A ledger used in the examples.\<close>

definition example_date :: date where
  "example_date = \<lparr>year = 2026, month = 3, day = 10\<rparr>"

definition example_ledger :: sheet where
  "example_ledger =
     \<lparr>header = BOOKING_COLUMNS,
      data_rows =
        [[u ''2026-03-10'', u ''A'', u ''Oscilloscope:2'', u ''09:00'', u ''10:00'', u ''M''],
         [u ''2026-03-10'', u ''A'', u ''Oscilloscope:5'', u ''10:30'', u ''11:00'', u ''M''],
         [u ''2026-03-11'', u ''A'', u ''Oscilloscope:7'', u ''09:00'', u ''10:00'', u ''M''],
         [u ''10.03.2026'', u ''A'', u ''Oscilloscope:9'', u ''09:00'', u ''10:00'', u ''M''],
         [u ''2026-03-10'', u ''A'', u ''Oscilloscope 1, Laptop'', u ''10:00'', u ''12:00'',
          u ''M'']]\<rparr>"

section \<open>Decimal numerals\<close>

text \<open>\<open>str(n)\<close> for an integer, as an f-string writes it.\<close>

fun str_nat :: "nat \<Rightarrow> ustring" where
  "str_nat n = (if n < 10 then [48 + n] else str_nat (n div 10) @ [48 + n mod 10])"

declare str_nat.simps [simp del]

definition str_int :: "int \<Rightarrow> ustring" where
  "str_int i = (if i < 0 then 45 # str_nat (nat (- i)) else str_nat (nat i))"

section \<open>Keyboards and the catalog pages\<close>

text \<open>
  An inline button has a text for the user and the \<open>callback_data\<close> that comes back when
  it is pressed.  The callback data is kept as the text it is, since the handlers take it
  apart.  A text shown to the user is kept as the fixed wording it has in the code, one
  constructor for each, with the values the wording includes.
\<close>

datatype label =
  ItemLabel ustring int  \<comment> \<open>\<open>name (cnt)\<close>\<close>
| ViewCartLabel  \<comment> \<open>view the cart\<close>
| FinishLabel  \<comment> \<open>finish the selection\<close>
| ManualLabel  \<comment> \<open>enter by hand (text)\<close>
| PrevLabel
| PageLabel int int  \<comment> \<open>\<open>page+1/total_pages\<close>\<close>
| NextLabel
| MinusLabel
| CountLabel int
| PlusLabel
| AddToCartLabel
| CancelLabel
| MinusOneLabel nat  \<comment> \<open>minus one, with the number of the cart line\<close>
| RemoveLabel
| ClearCartLabel
| CloseLabel
| ConfirmLabel

record button =
  label :: label
  callback_data :: ustring

type_synonym keyboard = "button list list"

datatype py_error = ZeroDivisionError | KeyError | ValueError | IndexError

definition PAGE_SIZE :: int where
  "PAGE_SIZE = 10"

definition ceil_div :: "int \<Rightarrow> int \<Rightarrow> int" where
  \<comment> \<open>\<open>math.ceil(a / b)\<close> for \<open>b \<noteq> 0\<close>, with the quotient taken exactly\<close>
  "ceil_div a b = - ((- a) div b)"

definition item_key :: "nat \<Rightarrow> ustring" where
  \<comment> \<open>the f-string \<open>i{idx}\<close>\<close>
  "item_key idx = 105 # str_nat idx"

definition build_callback_map :: "(ustring \<times> int) list \<Rightarrow> (ustring, ustring) dict" where
  \<comment> \<open>\<open>for idx, (name, _) in enumerate(items): callback_map[f"i{idx}"] = name\<close>\<close>
  "build_callback_map items =
     foldl (\<lambda>callback_map (idx, (name, cnt)). dict_set callback_map (item_key idx) name) []
       (enumerate 0 items)"

definition normalize_page :: "int \<Rightarrow> int \<Rightarrow> int" where
  \<comment> \<open>\<open>max(0, min(page, total_pages - 1))\<close>\<close>
  "normalize_page page total_pages = max 0 (min page (total_pages - 1))"

definition item_button :: "(ustring \<times> int) list \<Rightarrow> nat \<Rightarrow> button list" where
  \<comment> \<open>the row of one visible item\<close>
  "item_button items idx =
     [\<lparr>label = ItemLabel (fst (items ! idx)) (snd (items ! idx)),
       callback_data = u ''select:'' @ item_key idx\<rparr>]"

text \<open>
  \<open>build_inventory_keyboard\<close>, lines 226-271 of main.py.  \<open>stop\<close> is the \<open>end\<close> of the code.
  The visible indices are \<open>range(start, min(end, total))\<close>; \<open>start\<close> is never negative, so
  every index read is one of the list.
\<close>

definition build_inventory_keyboard ::
  "(ustring, int) dict \<Rightarrow> int \<Rightarrow> int \<Rightarrow> py_error + (keyboard \<times> (ustring, ustring) dict \<times> int)" where
  "build_inventory_keyboard inventory page0 page_size =
     (if page_size = 0 then Inl ZeroDivisionError
      else
        let items = inventory;
            total = int (length items);
            total_pages = max 1 (ceil_div total page_size);
            page = normalize_page page0 total_pages;
            callback_map = build_callback_map items;
            start = page * page_size;
            stop = start + page_size;
            rows = map (item_button items) [nat start ..< nat (min stop total)];
            rows = rows @
              [[\<lparr>label = ViewCartLabel, callback_data = u ''view_cart''\<rparr>,
                \<lparr>label = FinishLabel, callback_data = u ''finish_selection''\<rparr>]];
            rows = rows @ [[\<lparr>label = ManualLabel, callback_data = u ''manual_input''\<rparr>]];
            nav_row =
              (if page > 0
               then [\<lparr>label = PrevLabel, callback_data = u ''page:'' @ str_int (page - 1)\<rparr>]
               else []) @
              [\<lparr>label = PageLabel (page + 1) total_pages,
                callback_data = u ''page:'' @ str_int page\<rparr>] @
              (if page < total_pages - 1
               then [\<lparr>label = NextLabel, callback_data = u ''page:'' @ str_int (page + 1)\<rparr>]
               else []);
            rows = (if total_pages > 1 then rows @ [nav_row] else rows)
        in Inr (rows, callback_map, total_pages))"

text \<open>A catalog of 23 items, \<open>Item0\<close> to \<open>Item22\<close>, each in quantity 1.\<close>

definition catalog23 :: "(ustring, int) dict" where
  "catalog23 = map (\<lambda>i. (u ''Item'' @ str_nat i, 1)) [0..<23]"

section \<open>The session and the handlers\<close>

text \<open>
  The state of one user's dialogue: the state of the finite state machine (\<open>None\<close> when
  there is none) and the data dictionary kept with it.  A key of the dictionary is a
  field, \<open>None\<close> when the key is absent.  \<open>state.clear()\<close> gives \<open>cleared\<close>.
\<close>

datatype fsm_state =
  waiting_for_date | waiting_for_start | waiting_for_end | waiting_for_name
| waiting_for_resources | waiting_for_manager | confirm

record session =
  fsm :: "fsm_state option"
  booking_date :: "ustring option"
  start_time :: "ustring option"
  end_time :: "ustring option"
  employee_name :: "ustring option"
  cart :: "(ustring, int) dict option"
  callback_map :: "(ustring, ustring) dict option"
  cart_map :: "(ustring, ustring) dict option"
  inv_page :: "int option"
  temp_select :: "(ustring \<times> ustring \<times> int) option"
  resources :: "ustring option"
  requested_parsed :: "(ustring, int) dict option"
  manager_name :: "ustring option"

definition cleared :: session where
  "cleared =
     \<lparr>fsm = None, booking_date = None, start_time = None, end_time = None,
      employee_name = None, cart = None, callback_map = None, cart_map = None,
      inv_page = None, temp_select = None, resources = None, requested_parsed = None,
      manager_name = None\<rparr>"

text \<open>
  The two sheets as a handler finds them: \<open>stock\<close> is what \<open>get_inventory()\<close> returns and
  \<open>ledger\<close> the bookings sheet.
\<close>

record store =
  stock :: "(ustring, int) dict"
  ledger :: sheet

text \<open>
  What a handler sends to the user, one constructor for each message of the code with the
  values it includes.
\<close>

datatype notice =
  ButtonStale  \<comment> \<open>this button is out of date, the list is refreshed, choose again\<close>
| Selected ustring int int  \<comment> \<open>selected name, available, quantity\<close>
| CartEmpty
| CartListing "(ustring \<times> int) list"  \<comment> \<open>your cart, one numbered line for each entry\<close>
| CartCleared
| ChooseMore  \<comment> \<open>choose more or finish the selection\<close>
| CartButtonStale  \<comment> \<open>the button is out of date, open the cart again\<close>
| PositionRemoved ustring  \<comment> \<open>position removed from the cart (after minus one)\<close>
| Decreased ustring int  \<comment> \<open>decreased by 1, now ...\<close>
| PositionRemovedWhole ustring  \<comment> \<open>position removed from the cart completely\<close>
| PositionAbsent  \<comment> \<open>the position is no longer in the cart\<close>
| ManagerMissing  \<comment> \<open>give the name of the project manager\<close>
| BookingImpossible message  \<comment> \<open>unfortunately the booking is impossible: ...\<close>
| Summary date time time ustring ustring ustring
    \<comment> \<open>confirm the booking: date, start, end, employee, resources, manager\<close>
| BookingCancelled
| BookingWritten  \<comment> \<open>the booking has been written to the table\<close>
| ConfirmHint  \<comment> \<open>press Confirm or Cancel, or write yes or cancel\<close>
| CartEmptyChoose  \<comment> \<open>the cart is empty, choose a resource or enter by hand\<close>
| YouChose ustring  \<comment> \<open>you chose: ..., enter the name of the project manager\<close>
| ResourcesMissing  \<comment> \<open>at least one resource must be given\<close>
| AskManager  \<comment> \<open>enter the name of the project manager\<close>

text \<open>
  The effects of a handler in the order in which the code awaits them: a message to the
  user with its keyboard, the acknowledgement \<open>call.answer()\<close> of a button press, and
  \<open>append_booking_row(row)\<close>.
\<close>

datatype effect =
  Message notice "keyboard option"
| Ack
| AppendBookingRow "ustring list"



definition or_empty :: "('k, 'v) dict option \<Rightarrow> ('k, 'v) dict" where
  \<comment> \<open>\<open>data.get(key, {})\<close>\<close>
  "or_empty d = (case d of None \<Rightarrow> [] | Some m \<Rightarrow> m)"

definition get_name :: "(ustring, ustring) dict \<Rightarrow> ustring \<Rightarrow> ustring option" where
  \<comment> \<open>\<open>name = key_map.get(key)\<close>, with \<open>None\<close> wherever \<open>not name\<close> holds: no entry, or an empty name\<close>
  "get_name key_map key =
     (case map_of key_map key of
        None \<Rightarrow> None
      | Some name \<Rightarrow> if name = [] then None else Some name)"

text \<open>
  How a handler ends: it returns, or an exception leaves it.  Both carry the session as
  the handler left it and the effects up to that point.
\<close>

datatype outcome =
  Done session "effect list"
| Raised py_error session "effect list"

definition quantity_keyboard :: "ustring \<Rightarrow> int \<Rightarrow> keyboard" where
  "quantity_keyboard key count =
     [[\<lparr>label = MinusLabel, callback_data = u ''qty:'' @ key @ u '':dec''\<rparr>,
       \<lparr>label = CountLabel count, callback_data = u ''qty:'' @ key @ u '':noop''\<rparr>,
       \<lparr>label = PlusLabel, callback_data = u ''qty:'' @ key @ u '':inc''\<rparr>],
      [\<lparr>label = AddToCartLabel, callback_data = u ''qty:'' @ key @ u '':add''\<rparr>,
       \<lparr>label = CancelLabel, callback_data = u ''qty:cancel''\<rparr>]]"

text \<open>
  \<open>select_equipment\<close>, lines 370-402, for a button press whose data starts with
  \<open>select:\<close>.
\<close>

definition select_equipment :: "ustring \<Rightarrow> store \<Rightarrow> session \<Rightarrow> outcome" where
  "select_equipment call_data w s =
     (case split1 58 call_data of
        [prefix, key] \<Rightarrow>
          (case get_name (or_empty (callback_map s)) key of
             None \<Rightarrow>
               (case build_inventory_keyboard (stock w) 0 PAGE_SIZE of
                  Inl err \<Rightarrow> Raised err s []
                | Inr (kb, cmap, total_pages) \<Rightarrow>
                    Done (s\<lparr>callback_map := Some cmap, inv_page := Some 0\<rparr>)
                      [Message ButtonStale (Some kb), Ack])
           | Some name \<Rightarrow>
               let max_cnt = dict_get (stock w) name 0 in
               Done (s\<lparr>temp_select := Some (key, name, 1)\<rparr>)
                 [Message (Selected name max_cnt 1) (Some (quantity_keyboard key 1)), Ack])
      | _ \<Rightarrow> Raised IndexError s [])"

definition cart_key :: "nat \<Rightarrow> ustring" where
  \<comment> \<open>the f-string \<open>c{idx}\<close>\<close>
  "cart_key idx = 99 # str_nat idx"

definition build_cart_map :: "(ustring \<times> int) list \<Rightarrow> (ustring, ustring) dict" where
  \<comment> \<open>\<open>for idx, (name, qty) in enumerate(cart.items()): cart_map[f"c{idx}"] = name\<close>\<close>
  "build_cart_map items =
     foldl (\<lambda>cart_map (idx, (name, qty)). dict_set cart_map (cart_key idx) name) []
       (enumerate 0 items)"

definition cart_keyboard :: "(ustring \<times> int) list \<Rightarrow> keyboard" where
  "cart_keyboard items =
     map (\<lambda>(idx, (name, qty)).
            [\<lparr>label = MinusOneLabel (idx + 1), callback_data = u ''cart:dec:'' @ cart_key idx\<rparr>,
             \<lparr>label = RemoveLabel, callback_data = u ''cart:remove:'' @ cart_key idx\<rparr>])
         (enumerate 0 items)
     @ [[\<lparr>label = ClearCartLabel, callback_data = u ''cart:clear''\<rparr>,
         \<lparr>label = CloseLabel, callback_data = u ''cart:close''\<rparr>]]"

text \<open>\<open>view_cart\<close>, lines 505-538.\<close>

definition view_cart :: "session \<Rightarrow> outcome" where
  "view_cart s =
     (let cart1 = or_empty (cart s) in
      if cart1 = [] then Done s [Message CartEmpty None, Ack]
      else Done (s\<lparr>cart_map := Some (build_cart_map cart1)\<rparr>)
             [Message (CartListing cart1) (Some (cart_keyboard cart1)), Ack])"

definition dict_pop :: "('k, 'v) dict \<Rightarrow> 'k \<Rightarrow> ('k, 'v) dict" where
  \<comment> \<open>\<open>d.pop(k, None)\<close>\<close>
  "dict_pop d k = filter (\<lambda>(k', v). k' \<noteq> k) d"

text \<open>
  The end of both the \<open>dec\<close> and the \<open>remove\<close> branch of \<open>cart_actions\<close>: the cart is shown
  again with a new key map, unless it is empty.
\<close>

definition show_cart_again :: "session \<Rightarrow> effect list \<Rightarrow> outcome" where
  "show_cart_again s effects =
     (let cart2 = or_empty (cart s) in
      if cart2 = [] then Done s (effects @ [Message CartEmpty None])
      else Done (s\<lparr>cart_map := Some (build_cart_map cart2)\<rparr>)
             (effects @ [Message (CartListing cart2) (Some (cart_keyboard cart2))]))"

text \<open>
  \<open>cart_actions\<close>, lines 540-657, for a button press whose data starts with \<open>cart:\<close>.
\<close>

definition cart_actions :: "ustring \<Rightarrow> store \<Rightarrow> session \<Rightarrow> outcome" where
  "cart_actions call_data w s =
     (let parts = split_on 58 call_data in
      if length parts < 2 then Done s [Ack]
      else
        let action = parts ! 1;
            cart0 = or_empty (cart s);
            cart_map0 = or_empty (cart_map s)
        in
          if action = u ''clear'' then
            Done (s\<lparr>cart := Some []\<rparr>) [Message CartCleared None, Ack]
          else if action = u ''close'' then
            (case build_inventory_keyboard (stock w)
                    (case inv_page s of None \<Rightarrow> 0 | Some p \<Rightarrow> p) PAGE_SIZE of
               Inl err \<Rightarrow> Raised err s []
             | Inr (kb, cmap, total_pages) \<Rightarrow>
                 Done (s\<lparr>callback_map := Some cmap\<rparr>) [Message ChooseMore (Some kb), Ack])
          else if action = u ''dec'' \<or> action = u ''remove'' then
            (if length parts \<noteq> 3 then Done s [Ack]
             else
               let key = parts ! 2 in
               case get_name cart_map0 key of
                 None \<Rightarrow> Done s [Message CartButtonStale None, Ack]
               | Some name \<Rightarrow>
                   if action = u ''dec'' then
                     (let current = dict_get cart0 name 0 in
                      if current \<le> 1
                      then show_cart_again (s\<lparr>cart := Some (dict_pop cart0 name)\<rparr>)
                             [Message (PositionRemoved name) None, Ack]
                      else show_cart_again (s\<lparr>cart := Some (dict_set cart0 name (current - 1))\<rparr>)
                             [Message (Decreased name (current - 1)) None, Ack])
                   else
                     (if name \<in> fst ` set cart0
                      then show_cart_again (s\<lparr>cart := Some (dict_pop cart0 name)\<rparr>)
                             [Message (PositionRemovedWhole name) None, Ack]
                      else show_cart_again s [Message PositionAbsent None, Ack]))
          else Done s [Ack])"




section \<open>Confirmation\<close>

















section \<open>Overlap of two time windows\<close>

text \<open>
  C3.  For all times, \<open>times_overlap s1 e1 s2 e2\<close> holds exactly when \<open>s1 < e2\<close> and
  \<open>s2 < e1\<close>.  Two windows of which the second starts when the first ends never overlap;
  so 09:00-10:00 and 10:00-11:00 do not, while 09:00-10:30 and 10:00-11:00 do.
\<close>

theorem times_overlap_half_open:
  "(times_overlap s1 e1 s2 e2 \<longleftrightarrow> time_lt s1 e2 \<and> time_lt s2 e1)
   \<and> \<not> times_overlap s1 e1 e1 e2
   \<and> \<not> times_overlap (hm 9 0) (hm 10 0) (hm 10 0) (hm 11 0)
   \<and> times_overlap (hm 9 0) (hm 10 30) (hm 10 0) (hm 11 0)"
  by (simp add: times_overlap_def time_lt_def hm_def)

section \<open>Facts about dictionaries\<close>


lemma map_of_dict_set: "map_of (dict_set d k v) = (map_of d)(k \<mapsto> v)"
  by (induction d) auto

lemma keys_dict_set: "fst ` set (dict_set d k v) = insert k (fst ` set d)"
  by (simp add: dom_map_of_conv_image_fst[symmetric] map_of_dict_set)

lemma distinct_dict_set: "distinct (map fst d) \<Longrightarrow> distinct (map fst (dict_set d k v))"
  by (induction d) (auto simp: keys_dict_set)

lemma dict_get_dict_set:
  "dict_get (dict_set d k v) k' dflt = (if k' = k then v else dict_get d k' dflt)"
  by (simp add: dict_get_def map_of_dict_set)

lemma dict_get_absent: "k \<notin> fst ` set d \<Longrightarrow> dict_get d k dflt = dflt"
  by (simp add: dict_get_def map_of_eq_None_iff[THEN iffD2])

lemma dict_set_not_empty: "dict_set d k v \<noteq> []"
  by (cases d) (auto split: if_splits)

lemma distinct_parse_chunks:
  "distinct (map fst res) \<Longrightarrow> distinct (map fst (parse_chunks res chunks))"
  by (induction chunks arbitrary: res) (auto simp: distinct_dict_set split: option.splits)

lemma distinct_parse_resources: "distinct (map fst (parse_resources text))"
  by (simp add: parse_resources_def distinct_parse_chunks)

lemma add_counts_get:
  "distinct (map fst items) \<Longrightarrow>
   dict_get (add_counts cc items) n 0 = dict_get cc n 0 + dict_get items n 0"
proof (induction items arbitrary: cc)
  case Nil
  then show ?case by (simp add: dict_get_def)
next
  case (Cons a items)
  obtain k v where a: "a = (k, v)" by (cases a)
  from Cons.prems a have k: "k \<notin> fst ` set items" and d: "distinct (map fst items)" by auto
  show ?case
    using Cons.IH[OF d] k
    by (auto simp: a dict_get_dict_set dict_get_absent) (simp_all add: dict_get_def)
qed

lemma add_counts_dom: "dom (map_of (add_counts cc items)) = dom (map_of cc) \<union> dom (map_of items)"
proof (induction items arbitrary: cc)
  case Nil
  show ?case by simp
next
  case (Cons a items)
  obtain k v where a: "a = (k, v)" by (cases a)
  show ?case
    unfolding a using Cons.IH[of "dict_set cc k (dict_get cc k 0 + v)"]
    by (simp add: map_of_dict_set) (auto simp: dom_def)
qed

lemma add_counts_keys: "fst ` set (add_counts cc items) = fst ` set cc \<union> fst ` set items"
  using add_counts_dom[of cc items] by (simp add: dom_map_of_conv_image_fst)

section \<open>The usage map\<close>

lemmas eval_text = strip_def isspace_def lower_def lower_char_def isdigit_def isdigit_char_def
  py_int_def int_or_1_def replace_char_def split1_def rsplit1_def normalize_separators_def
  parse_chunk_def parse_resources_def dict_get_def

lemmas eval_time = is_dec_def dec_def is_leap_def days_in_month_def strptime_date_def
  strptime_time_def hm_def times_overlap_def time_lt_def

lemmas eval_row = date_substrs_def start_substrs_def end_substrs_def resources_substrs_def
  falsy_def cell_def row_resources_def BOOKING_COLUMNS_def get_all_records_def

lemma row_resources_counted:
  "row_resources d s e r = (if counted d s e r then Some (record_items r) else None)"
  by (simp add: row_resources_def counted_def record_items_def ledger_record_def Let_def
      split: option.splits)

lemma distinct_record_items: "distinct (map fst (record_items r))"
  by (simp add: record_items_def distinct_parse_resources split: option.splits prod.splits)

lemma count_conflicts_get:
  "dict_get (count_conflicts d s e cc rows) n 0 =
   dict_get cc n 0 + (\<Sum>r\<leftarrow>filter (counted d s e) rows. dict_get (record_items r) n 0)"
  by (induction rows arbitrary: cc)
     (simp_all add: row_resources_counted add_counts_get distinct_record_items)

lemma count_conflicts_keys:
  "fst ` set (count_conflicts d s e cc rows) =
   fst ` set cc \<union> (\<Union>r\<in>set (filter (counted d s e) rows). fst ` set (record_items r))"
  by (induction rows arbitrary: cc)
     (auto simp add: row_resources_counted add_counts_keys)

lemma dict_get_empty: "dict_get [] k dflt = dflt"
  by (simp add: dict_get_def)

text \<open>
  C1.  The usage map that \<open>check_availability\<close> accumulates holds, for every resource
  name, the sum of that resource's quantities over exactly the counted ledger rows: the
  well-formed records of the probe date whose window overlaps the probe window.  A name is
  a key of the map exactly when a counted row names it.  Rows that are malformed, of
  another date or not overlapping are skipped and add nothing.
\<close>

theorem usage_map_exact:
  "dict_get (count_conflicts d s e [] bookings) name 0 =
     (\<Sum>r\<leftarrow>filter (counted d s e) bookings. dict_get (record_items r) name 0)
   \<and> (name \<in> fst ` set (count_conflicts d s e [] bookings) \<longleftrightarrow>
        (\<exists>r\<in>set bookings. counted d s e r \<and> name \<in> fst ` set (record_items r)))"
  by (auto simp add: count_conflicts_get count_conflicts_keys dict_get_empty)

text \<open>
  Five rows under the headers of \<open>BOOKING_COLUMNS\<close>, probed for 2026-03-10, 09:30-10:30:
  the first and the last are counted; the second only touches the probe window, the third
  is of another day, the date of the fourth does not parse.
\<close>

theorem usage_map_exact_witness:
  "(\<Sum>r\<leftarrow>filter (counted example_date (hm 9 30) (hm 10 30)) (get_all_records example_ledger).
      dict_get (record_items r) (u ''Oscilloscope'') 0) = 3
   \<and> count_conflicts example_date (hm 9 30) (hm 10 30) [] (get_all_records example_ledger)
       = [(u ''Oscilloscope'', 3), (u ''Laptop'', 1)]"
proof -
  have c: "count_conflicts example_date (hm 9 30) (hm 10 30) [] (get_all_records example_ledger)
       = [(u ''Oscilloscope'', 3), (u ''Laptop'', 1)]"
    by (simp add: example_date_def example_ledger_def eval_text eval_row eval_time)
  have "dict_get (count_conflicts example_date (hm 9 30) (hm 10 30) []
          (get_all_records example_ledger)) (u ''Oscilloscope'') 0 = 3"
    unfolding c by (simp add: dict_get_def)
  with usage_map_exact[of example_date "hm 9 30" "hm 10 30" "get_all_records example_ledger"
      "u ''Oscilloscope''"] c
  show ?thesis by simp
qed

section \<open>The requested resources, in order\<close>

lemma check_requested_append:
  "\<forall>(n, c)\<in>set passed. find_inv_cnt inventory n \<noteq> 0 \<and> \<not> find_inv_cnt inventory n - dict_get used n 0 < c \<Longrightarrow>
   check_requested inventory used d s e (passed @ rest) = check_requested inventory used d s e rest"
  by (induction passed) (auto simp: Let_def)

lemma find_inv_cnt_find:
  "find_inv_cnt inventory name =
     (case find (\<lambda>(k, q). lower (strip k) = lower (strip name)) inventory of
        None \<Rightarrow> 0
      | Some (k, q) \<Rightarrow> q)"
  by (induction inventory) auto

text \<open>
  C2.  \<open>check_availability\<close> goes through the requested resources in the order given and
  the first failure decides.  When every entry of \<open>passed\<close> resolves to a non-zero
  inventory quantity and asks for no more than is free, the request \<open>passed\<close> is
  available, and the request \<open>passed\<close>, then \<open>(name, cnt)\<close>, then \<open>rest\<close> is refused as
  "not in the inventory or zero" when \<open>name\<close> resolves to quantity 0, otherwise refused with
  the resource, the window, the free count and the requested count when
  \<open>free = inv_cnt - used < cnt\<close>, in both cases whatever \<open>rest\<close> holds; otherwise the check goes
  on with \<open>rest\<close>.  The inventory quantity of a name is that of the first inventory entry
  equal to it after trimming and lower-casing, and 0 when there is none.
\<close>

theorem first_failure_wins:
  assumes "\<forall>(n, c)\<in>set passed.
             find_inv_cnt inventory n \<noteq> 0 \<and>
             c \<le> find_inv_cnt inventory n - dict_get (count_conflicts d s e [] bookings) n 0"
  shows "check_availability inventory bookings d s e passed = Available
    \<and> check_availability inventory bookings d s e (passed @ (name, cnt) # rest) =
       (if find_inv_cnt inventory name = 0 then Unavailable (NotInInventory name)
        else if find_inv_cnt inventory name - dict_get (count_conflicts d s e [] bookings) name 0 < cnt
        then Unavailable (OnlyFree d s e
               (find_inv_cnt inventory name - dict_get (count_conflicts d s e [] bookings) name 0)
               name cnt)
        else check_availability inventory bookings d s e rest)
    \<and> find_inv_cnt inventory name =
       (case find (\<lambda>(k, q). lower (strip k) = lower (strip name)) inventory of
          None \<Rightarrow> 0
        | Some (k, q) \<Rightarrow> q)"
proof -
  let ?used = "count_conflicts d s e [] bookings"
  from assms have p: "\<forall>(n, c)\<in>set passed. find_inv_cnt inventory n \<noteq> 0 \<and>
      \<not> find_inv_cnt inventory n - dict_get ?used n 0 < c"
    by (auto simp: not_less)
  have a: "check_requested inventory ?used d s e (passed @ []) = Available"
    unfolding check_requested_append[OF p] by simp
  have b: "check_requested inventory ?used d s e (passed @ (name, cnt) # rest) =
       check_requested inventory ?used d s e ((name, cnt) # rest)"
    by (rule check_requested_append[OF p])
  show ?thesis
    using a b find_inv_cnt_find[of inventory name]
    by (simp add: check_availability_def Let_def)
qed

lemma example_usage:
  "count_conflicts example_date (hm 9 30) (hm 10 30) [] (get_all_records example_ledger)
     = [(u ''Oscilloscope'', 3), (u ''Laptop'', 1)]"
  by (simp add: example_date_def example_ledger_def eval_text eval_row eval_time)

theorem first_failure_wins_witness:
  "check_availability
     [(u ''Oscilloscope'', 5), (u ''Laptop'', 1), (u ''Probe'', 0)]
     (get_all_records example_ledger) example_date (hm 9 30) (hm 10 30)
     [(u ''Oscilloscope'', 2)] = Available
   \<and> check_availability
     [(u ''Oscilloscope'', 5), (u ''Laptop'', 1), (u ''Probe'', 0)]
     (get_all_records example_ledger) example_date (hm 9 30) (hm 10 30)
     [(u ''Oscilloscope'', 2), (u ''Laptop'', 1), (u ''Ghost'', 1)]
     = Unavailable (OnlyFree example_date (hm 9 30) (hm 10 30) 0 (u ''Laptop'') 1)
   \<and> check_availability
     [(u ''Oscilloscope'', 5), (u ''Laptop'', 1), (u ''Probe'', 0)]
     (get_all_records example_ledger) example_date (hm 9 30) (hm 10 30)
     [(u ''Oscilloscope'', 2), (u '' probe'', 1), (u ''Laptop'', 1)]
     = Unavailable (NotInInventory (u '' probe''))"
  using first_failure_wins[of "[(u ''Oscilloscope'', 2)]"
      "[(u ''Oscilloscope'', 5), (u ''Laptop'', 1), (u ''Probe'', 0)]"
      example_date "hm 9 30" "hm 10 30"
      "get_all_records example_ledger" "u ''Laptop''" 1 "[(u ''Ghost'', 1)]"]
    first_failure_wins[of "[(u ''Oscilloscope'', 2)]"
      "[(u ''Oscilloscope'', 5), (u ''Laptop'', 1), (u ''Probe'', 0)]"
      example_date "hm 9 30" "hm 10 30"
      "get_all_records example_ledger" "u '' probe''" 1 "[(u ''Laptop'', 1)]"]
  unfolding example_usage
  by (simp add: eval_text)

section \<open>Names that differ in case\<close>

lemma check_requested_cong:
  "\<forall>(n, c)\<in>set requested. dict_get used1 n 0 = dict_get used2 n (0::int) \<Longrightarrow>
   check_requested inventory used1 d s e requested =
   check_requested inventory used2 d s e requested"
  by (induction requested) (auto simp: Let_def)

text \<open>
  C9.  The inventory is searched with both names trimmed and lower-cased, but the quantity
  already used is looked up under the requested name as it is written.  So a ledger row
  none of whose resource names is exactly a requested name leaves the used quantity of
  every requested name, and with it the free count and the result of the check, as they
  are without the row.  This holds in particular for an overlapping row whose resource
  name differs from the requested name only in letter case or surrounding blanks.
\<close>

theorem used_lookup_is_exact:
  assumes "\<forall>(n, c)\<in>set requested. n \<notin> fst ` set (record_items r)"
  shows "(\<forall>(n, c)\<in>set requested.
            dict_get (count_conflicts d s e [] (before @ r # after)) n 0 =
            dict_get (count_conflicts d s e [] (before @ after)) n 0)
    \<and> check_availability inventory (before @ r # after) d s e requested =
       check_availability inventory (before @ after) d s e requested
    \<and> (lower (strip inv_name) = lower (strip name) \<longrightarrow>
         find_inv_cnt ((inv_name, inv_num) # inventory) name = inv_num)"
proof -
  have u: "\<forall>(n, c)\<in>set requested.
            dict_get (count_conflicts d s e [] (before @ r # after)) n 0 =
            dict_get (count_conflicts d s e [] (before @ after)) n 0"
    using assms by (auto simp: count_conflicts_get dict_get_absent)
  from check_requested_cong[OF u] u show ?thesis
    by (simp add: check_availability_def)
qed

text \<open>
  One Laptop in the inventory, and an overlapping booking of \<open>laptop:1\<close>: a request for
  \<open>Laptop\<close> is still available.  Had the booking been written \<open>Laptop:1\<close>, none would be
  free.
\<close>

theorem used_lookup_is_exact_witness:
  "check_availability [(u ''Laptop'', 1)]
     (get_all_records \<lparr>header = BOOKING_COLUMNS, data_rows =
        [[u ''2026-03-10'', u ''A'', u ''laptop:1'', u ''09:00'', u ''10:00'', u ''M'']]\<rparr>)
     example_date (hm 9 30) (hm 10 30) [(u ''Laptop'', 1)] = Available
   \<and> counted example_date (hm 9 30) (hm 10 30)
       (zip BOOKING_COLUMNS
          [u ''2026-03-10'', u ''A'', u ''laptop:1'', u ''09:00'', u ''10:00'', u ''M''])
   \<and> find_inv_cnt [(u ''Laptop'', 1)] (u ''laptop'') = 1
   \<and> check_availability [(u ''Laptop'', 1)]
     (get_all_records \<lparr>header = BOOKING_COLUMNS, data_rows =
        [[u ''2026-03-10'', u ''A'', u ''Laptop:1'', u ''09:00'', u ''10:00'', u ''M'']]\<rparr>)
     example_date (hm 9 30) (hm 10 30) [(u ''Laptop'', 1)]
     = Unavailable (OnlyFree example_date (hm 9 30) (hm 10 30) 0 (u ''Laptop'') 1)"
proof -
  let ?r = "zip BOOKING_COLUMNS
          [u ''2026-03-10'', u ''A'', u ''laptop:1'', u ''09:00'', u ''10:00'', u ''M'']"
  have rr: "row_resources example_date (hm 9 30) (hm 10 30) ?r = Some [(u ''laptop'', 1)]"
    by (simp add: example_date_def eval_text eval_row eval_time)
  then have c: "counted example_date (hm 9 30) (hm 10 30) ?r"
    and i: "record_items ?r = [(u ''laptop'', 1)]"
    by (simp_all add: row_resources_counted split: if_splits)
  have h: "\<forall>(n, c)\<in>set [(u ''Laptop'', 1::int)]. n \<notin> fst ` set (record_items ?r)"
    unfolding i by simp
  have a: "check_availability [(u ''Laptop'', 1)] [] example_date (hm 9 30) (hm 10 30)
      [(u ''Laptop'', 1)] = Available"
    by (simp add: check_availability_def eval_text)
  have b: "check_availability [(u ''Laptop'', 1)]
     (get_all_records \<lparr>header = BOOKING_COLUMNS, data_rows =
        [[u ''2026-03-10'', u ''A'', u ''Laptop:1'', u ''09:00'', u ''10:00'', u ''M'']]\<rparr>)
     example_date (hm 9 30) (hm 10 30) [(u ''Laptop'', 1)]
     = Unavailable (OnlyFree example_date (hm 9 30) (hm 10 30) 0 (u ''Laptop'') 1)"
    by (simp add: check_availability_def example_date_def eval_text eval_row eval_time)
  have f: "find_inv_cnt [(u ''Laptop'', 1)] (u ''laptop'') = 1"
    by (simp add: eval_text)
  from used_lookup_is_exact[OF h, of example_date "hm 9 30" "hm 10 30" "[]" "[]"
      "[(u ''Laptop'', 1)]"] a
  have "check_availability [(u ''Laptop'', 1)] [?r] example_date (hm 9 30) (hm 10 30)
      [(u ''Laptop'', 1)] = Available"
    by simp
  then show ?thesis
    using c f b by (simp add: get_all_records_def)
qed

lemma find_inv_cnt_match:
  "lower (strip inv_name) = lower (strip name) \<Longrightarrow>
   \<forall>(k, q)\<in>set before. lower (strip k) \<noteq> lower (strip name) \<Longrightarrow>
   find_inv_cnt (before @ (inv_name, inv_num) # after) name = inv_num"
  by (induction before) auto

lemma find_inv_cnt_none:
  "\<forall>(k, q)\<in>set inventory. lower (strip k) \<noteq> lower (strip name) \<Longrightarrow>
   find_inv_cnt inventory name = 0"
  by (induction inventory) auto

section \<open>Facts about trimming and splitting\<close>

lemma dropWhile_all_append: "\<forall>c\<in>set a. P c \<Longrightarrow> dropWhile P (a @ b) = dropWhile P b"
  by (induction a) auto

lemma strip_all_space: "\<forall>c\<in>set s. isspace c \<Longrightarrow> strip s = []"
  by (auto simp: strip_def dest: set_dropWhileD)

lemma strip_unique:
  assumes "s = a @ m @ b" and "\<forall>c\<in>set a. isspace c" and "\<forall>c\<in>set b. isspace c"
    and "m = [] \<or> (\<not> isspace (hd m) \<and> \<not> isspace (last m))"
  shows "strip s = m"
proof (cases "m = []")
  case True
  with assms have "\<forall>c\<in>set s. isspace c" by auto
  then show ?thesis using True by (simp add: strip_all_space)
next
  case False
  with assms(4) have h: "\<not> isspace (hd m)" and l: "\<not> isspace (last m)" by auto
  from False obtain c m' where m1: "m = c # m'" by (cases m) auto
  from False obtain m'' d where m2: "m = m'' @ [d]" by (cases m rule: rev_cases) auto
  from h m1 have c: "\<not> isspace c" by simp
  from l m2 have d: "\<not> isspace d" by simp
  have 1: "dropWhile isspace s = m @ b"
    using assms(2) c by (simp add: assms(1) m1 dropWhile_all_append)
  have "rev (m @ b) = rev b @ d # rev m''" by (simp add: m2)
  then have "dropWhile isspace (rev (m @ b)) = d # rev m''"
    using assms(3) d by (simp add: dropWhile_all_append)
  then show ?thesis by (simp add: strip_def 1 m2)
qed

lemma strip_decompose:
  "\<exists>a b. s = a @ strip s @ b \<and> (\<forall>c\<in>set a. isspace c) \<and> (\<forall>c\<in>set b. isspace c)
     \<and> (strip s = [] \<or> (\<not> isspace (hd (strip s)) \<and> \<not> isspace (last (strip s))))"
proof -
  let ?a = "takeWhile isspace s"
  let ?rest = "dropWhile isspace s"
  let ?b = "rev (takeWhile isspace (rev ?rest))"
  have r: "?rest = strip s @ ?b"
  proof -
    have "rev (dropWhile isspace (rev ?rest)) @ rev (takeWhile isspace (rev ?rest)) = ?rest"
      by (simp only: rev_append[symmetric] takeWhile_dropWhile_id rev_rev_ident)
    then show ?thesis by (simp add: strip_def)
  qed
  have s: "s = ?a @ strip s @ ?b" using r by (metis takeWhile_dropWhile_id)
  have a: "\<forall>c\<in>set ?a. isspace c" by (auto dest: set_takeWhileD)
  have b: "\<forall>c\<in>set ?b. isspace c" by (auto dest: set_takeWhileD)
  have e: "strip s = [] \<or> (\<not> isspace (hd (strip s)) \<and> \<not> isspace (last (strip s)))"
  proof (cases "strip s = []")
    case True then show ?thesis by simp
  next
    case False
    then have ne: "dropWhile isspace (rev ?rest) \<noteq> []" by (simp add: strip_def)
    have "last (strip s) = hd (dropWhile isspace (rev ?rest))"
      using ne by (simp add: strip_def last_rev)
    then have l: "\<not> isspace (last (strip s))" using ne hd_dropWhile by metis
    from False r have "hd (strip s) = hd ?rest" by (metis hd_append2)
    moreover from False r have "?rest \<noteq> []" by (metis append_is_Nil_conv)
    ultimately have "\<not> isspace (hd (strip s))" using hd_dropWhile by metis
    with l show ?thesis by simp
  qed
  from s a b e show ?thesis by blast
qed

lemma strip_eq_Nil: "strip s = [] \<longleftrightarrow> (\<forall>c\<in>set s. isspace c)"
proof
  assume "strip s = []"
  with strip_decompose[of s] show "\<forall>c\<in>set s. isspace c" by (metis append_Nil set_append UnE)
next
  assume "\<forall>c\<in>set s. isspace c"
  then show "strip s = []" by (rule strip_all_space)
qed

lemma strip_ends:
  "strip s \<noteq> [] \<Longrightarrow> \<not> isspace (hd (strip s)) \<and> \<not> isspace (last (strip s))"
  using strip_decompose[of s] by blast

lemma strip_fixed:
  "m = [] \<or> (\<not> isspace (hd m) \<and> \<not> isspace (last m)) \<Longrightarrow> strip m = m"
  using strip_unique[of m "[]" m "[]"] by simp

lemma strip_idem: "strip (strip s) = strip s"
  using strip_decompose[of s] by (intro strip_fixed) blast

lemma strip_around:
  assumes "\<not> isspace c"
  shows "strip (a @ c # b) = dropWhile isspace a @ c # rev (dropWhile isspace (rev b))"
proof -
  have 1: "dropWhile isspace (a @ c # b) = dropWhile isspace a @ c # b"
    using assms by (simp add: dropWhile_append3)
  have "rev (dropWhile isspace a @ c # b) = rev b @ c # rev (dropWhile isspace a)" by simp
  then have "dropWhile isspace (rev (dropWhile isspace a @ c # b))
      = dropWhile isspace (rev b) @ c # rev (dropWhile isspace a)"
    using assms by (simp add: dropWhile_append3)
  then show ?thesis by (simp add: strip_def 1)
qed

lemma strip_lstrip: "strip (dropWhile isspace a) = strip a"
  by (simp add: strip_def)

lemma strip_rstrip: "strip (rev (dropWhile isspace (rev b))) = strip b"
proof -
  obtain x y where d: "b = x @ strip b @ y" "\<forall>c\<in>set x. isspace c" "\<forall>c\<in>set y. isspace c"
    "strip b = [] \<or> (\<not> isspace (hd (strip b)) \<and> \<not> isspace (last (strip b)))"
    using strip_decompose[of b] by blast
  show ?thesis
  proof (cases "strip b = []")
    case True
    then have "\<forall>c\<in>set b. isspace c" by (simp add: strip_eq_Nil)
    then have "\<forall>c\<in>set (rev (dropWhile isspace (rev b))). isspace c"
      by (auto dest: set_dropWhileD)
    then show ?thesis using True by (simp add: strip_all_space)
  next
    case False
    then obtain m d' where m: "strip b = m @ [d']" by (cases "strip b" rule: rev_cases) auto
    with d(4) have nd: "\<not> isspace d'" by auto
    have "rev b = rev y @ d' # rev m @ rev x" using d(1) m by (metis append_assoc rev.simps(2) rev_append append_Cons append_Nil)
    then have "dropWhile isspace (rev b) = d' # rev m @ rev x"
      using d(3) nd by (simp add: dropWhile_all_append)
    then have "rev (dropWhile isspace (rev b)) = x @ strip b @ []" by (simp add: m)
    then show ?thesis using d(2,4) by (intro strip_unique[of _ x "strip b" "[]"]) auto
  qed
qed

lemma split_on_not_Nil: "split_on sep t \<noteq> []"
  by (induction t) (auto split: list.splits)

lemma split_on_no_sep: "sep \<notin> set t \<Longrightarrow> split_on sep t = [t]"
  by (induction t) auto

lemma split_on_append: "split_on sep (a @ sep # b) = split_on sep a @ split_on sep b"
  by (induction a) (auto split: list.splits simp: split_on_not_Nil)

lemma split_on_chars: "\<Union>(set ` set (split_on sep t)) = set t - {sep}"
proof (induction t)
  case Nil
  show ?case by simp
next
  case (Cons c t)
  obtain w ws where w: "split_on sep t = w # ws"
    using split_on_not_Nil[of sep t] by (cases "split_on sep t") auto
  show ?case
  proof (cases "c = sep")
    case True
    then show ?thesis using Cons by simp
  next
    case False
    have "\<Union>(set ` set (split_on sep (c # t))) = insert c (\<Union>(set ` set (split_on sep t)))"
      using False by (simp add: w)
    also have "\<dots> = insert c (set t - {sep})" by (simp only: Cons)
    also have "\<dots> = set (c # t) - {sep}" using False by auto
    finally show ?thesis .
  qed
qed

lemma normalize_separators_map:
  "normalize_separators text = map (\<lambda>c. if c = 59 \<or> c = 44 \<or> c = 10 then 59 else c) text"
  by (simp add: normalize_separators_def replace_char_def)

lemma parse_chunk_None: "parse_chunk chunk = None \<longleftrightarrow> strip chunk = []"
  by (simp add: parse_chunk_def Let_def split: prod.splits)

lemma parse_chunks_not_Nil: "res \<noteq> [] \<Longrightarrow> parse_chunks res chunks \<noteq> []"
  by (induction chunks arbitrary: res) (auto simp: dict_set_not_empty split: option.splits)

lemma parse_chunks_Nil:
  "parse_chunks [] chunks = [] \<longleftrightarrow> (\<forall>c\<in>set chunks. parse_chunk c = None)"
  by (induction chunks) (auto simp: parse_chunks_not_Nil dict_set_not_empty split: option.splits)

lemma map_of_parse_chunks:
  "map_of (parse_chunks res chunks) = map_of (rev (List.map_filter parse_chunk chunks) @ res)"
proof (induction chunks arbitrary: res)
  case Nil
  show ?case by simp
next
  case (Cons c chunks)
  show ?case
  proof (cases "parse_chunk c")
    case None
    then show ?thesis by (simp add: Cons.IH)
  next
    case (Some p)
    obtain k v where p: "p = (k, v)" by (cases p)
    have "map_of (rev (List.map_filter parse_chunk chunks) @ dict_set res k v)
        = map_of (rev (List.map_filter parse_chunk chunks) @ (k, v) # res)"
      by (simp add: map_of_dict_set)
    then show ?thesis using Some p by (simp add: Cons.IH)
  qed
qed

lemma map_of_rev_last:
  "map_of (rev ps) k =
     (case filter (\<lambda>(k', v). k' = k) ps of [] \<Rightarrow> None | q # qs \<Rightarrow> Some (snd (last (q # qs))))"
proof (induction ps rule: rev_induct)
  case Nil
  show ?case by simp
next
  case (snoc p ps)
  obtain k' v where p: "p = (k', v)" by (cases p)
  show ?case using snoc by (auto simp: p split: list.splits)
qed

section \<open>The rule for one chunk\<close>

lemma takeWhile_until: "sep \<notin> set a \<Longrightarrow> takeWhile (\<lambda>c. c \<noteq> sep) (a @ sep # b) = a"
  by (induction a) auto

lemma dropWhile_until: "sep \<notin> set a \<Longrightarrow> dropWhile (\<lambda>c. c \<noteq> sep) (a @ sep # b) = sep # b"
  by (induction a) auto

lemma split1_at: "sep \<notin> set a \<Longrightarrow> split1 sep (a @ sep # b) = [a, b]"
  by (simp add: split1_def takeWhile_until dropWhile_until)

lemma rsplit1_at: "sep \<notin> set b \<Longrightarrow> rsplit1 sep (a @ sep # b) = [a, b]"
  using split1_at[of sep "rev b" "rev a"] by (simp add: rsplit1_def)

lemma rsplit1_none: "sep \<notin> set t \<Longrightarrow> rsplit1 sep t = [t]"
  by (simp add: rsplit1_def split1_def)

lemma py_int_strip: "py_int (strip s) = py_int s"
  by (simp add: py_int_def strip_idem)

lemma int_or_1_py_int: "int_or_1 cnt = (case py_int cnt of Some n \<Rightarrow> n | None \<Rightarrow> 1)"
  by (simp add: int_or_1_def py_int_strip)

lemma int_or_1_one: "int_or_1 [49] = 1"
  by (simp add: eval_text)

lemma chunk_colon:
  assumes "strip chunk = nm @ 58 # qty" and "58 \<notin> set nm"
  shows "parse_chunk chunk = Some (strip nm, int_or_1 qty)"
  using assms by (simp add: parse_chunk_def Let_def split1_at)

lemma chunk_token:
  assumes "strip chunk = nm @ 32 # tok" and "58 \<notin> set (strip chunk)" and "32 \<notin> set tok"
    and "isdigit tok"
  shows "parse_chunk chunk = Some (strip nm, int_or_1 tok)"
proof -
  have "strip (strip chunk) = nm @ 32 # tok" by (metis strip_idem assms(1))
  then have "rsplit1 32 (strip (strip chunk)) = [nm, tok]"
    using assms(3) by (simp add: rsplit1_at)
  then show ?thesis
    using assms by (simp add: parse_chunk_def Let_def)
qed

lemma chunk_default:
  assumes "strip chunk \<noteq> []" and "58 \<notin> set (strip chunk)"
    and "\<not> (\<exists>a b. strip chunk = a @ 32 # b \<and> 32 \<notin> set b \<and> isdigit b)"
  shows "parse_chunk chunk = Some (strip chunk, 1)"
proof (cases "32 \<in> set (strip chunk)")
  case True
  then obtain a b where ab: "strip chunk = a @ 32 # b" "32 \<notin> set b"
    by (meson split_list_last)
  with assms(3) have nd: "\<not> isdigit b" by blast
  have "strip (strip chunk) = a @ 32 # b" by (metis strip_idem ab(1))
  then have "rsplit1 32 (strip (strip chunk)) = [a, b]"
    using ab(2) by (simp add: rsplit1_at)
  then show ?thesis
    using assms(1,2) nd by (simp add: parse_chunk_def Let_def int_or_1_one strip_idem)
next
  case False
  then have "rsplit1 32 (strip (strip chunk)) = [strip chunk]"
    by (simp add: strip_idem rsplit1_none)
  then show ?thesis
    using assms(1,2) by (simp add: parse_chunk_def Let_def int_or_1_one strip_idem)
qed

lemma map_of_parse_resources:
  "map_of (parse_resources text) name =
     (case filter (\<lambda>(k, v). k = name)
             (List.map_filter parse_chunk (split_on 59 (normalize_separators text))) of
        [] \<Rightarrow> None
      | q # qs \<Rightarrow> Some (snd (last (q # qs))))"
  by (simp add: parse_resources_def map_of_parse_chunks map_of_rev_last)

lemma parse_example_1:
  "parse_resources (u ''Oscilloscope:2; Laptop:1'') = [(u ''Oscilloscope'', 2), (u ''Laptop'', 1)]"
  by (simp add: eval_text)

lemma parse_example_2:
  "parse_resources (u ''Oscilloscope 2, Laptop'') = [(u ''Oscilloscope'', 2), (u ''Laptop'', 1)]"
  by (simp add: eval_text)

lemma parse_example_3: "parse_resources (u ''Widget'') = [(u ''Widget'', 1)]"
  by (simp add: eval_text)

section \<open>What the parser returns\<close>

text \<open>
  C7, as the code has it.  The three separators become one and the text is cut at it.  A
  chunk that is blank after trimming is skipped.  Otherwise, with the chunk trimmed: if it
  holds a colon, the name is the text before the first colon and the quantity text the
  text after it; else if it holds a space (U+0020) and the text after its last space is
  all digits, that text is the quantity text and the text before that space the name; else
  the whole chunk is the name and the quantity is 1.  The name is trimmed, and a quantity
  text that is not an integer gives 1.  A name is bound to the quantity of the last chunk
  that has this name.  The three examples of the specification hold.
\<close>

theorem parse_resources_rules:
  "normalize_separators text = map (\<lambda>c. if c = 59 \<or> c = 44 \<or> c = 10 then 59 else c) text
   \<and> map_of (parse_resources text) name =
       (case filter (\<lambda>(k, v). k = name)
               (List.map_filter parse_chunk (split_on 59 (normalize_separators text))) of
          [] \<Rightarrow> None
        | q # qs \<Rightarrow> Some (snd (last (q # qs))))
   \<and> (strip chunk = [] \<longrightarrow> parse_chunk chunk = None)
   \<and> (strip chunk = nm @ 58 # qty \<and> 58 \<notin> set nm \<longrightarrow>
        parse_chunk chunk = Some (strip nm, int_or_1 qty))
   \<and> (strip chunk = nm @ 32 # tok \<and> 58 \<notin> set (strip chunk) \<and> 32 \<notin> set tok \<and> isdigit tok \<longrightarrow>
        parse_chunk chunk = Some (strip nm, int_or_1 tok))
   \<and> (strip chunk \<noteq> [] \<and> 58 \<notin> set (strip chunk)
        \<and> \<not> (\<exists>a b. strip chunk = a @ 32 # b \<and> 32 \<notin> set b \<and> isdigit b) \<longrightarrow>
        parse_chunk chunk = Some (strip chunk, 1))
   \<and> int_or_1 qty = (case py_int qty of Some n \<Rightarrow> n | None \<Rightarrow> 1)
   \<and> parse_resources (u ''Oscilloscope:2; Laptop:1'') = [(u ''Oscilloscope'', 2), (u ''Laptop'', 1)]
   \<and> parse_resources (u ''Oscilloscope 2, Laptop'') = [(u ''Oscilloscope'', 2), (u ''Laptop'', 1)]
   \<and> parse_resources (u ''Widget'') = [(u ''Widget'', 1)]"
  using normalize_separators_map[of "text"] map_of_parse_resources[of "text" name]
    parse_chunk_None[of chunk] chunk_colon[of chunk nm qty] chunk_token[of chunk nm tok]
    chunk_default[of chunk] int_or_1_py_int[of qty]
    parse_example_1 parse_example_2 parse_example_3
  by blast

theorem parse_resources_rules_witness:
  "parse_chunk (u '' Laptop : x3 '') = Some (u ''Laptop'', 1)
   \<and> parse_chunk (u '' Big Scope  12 '') = Some (u ''Big Scope'', 12)
   \<and> parse_chunk (u ''Big Scope'') = Some (u ''Big Scope'', 1)
   \<and> parse_chunk (u ''  '') = None
   \<and> map_of (parse_resources (u ''a:1;b:2;a:5'')) (u ''a'') = Some 5"
proof -
  have 1: "strip (u '' Laptop : x3 '') = u ''Laptop '' @ 58 # u '' x3''"
    by (simp add: eval_text)
  have 2: "strip (u '' Big Scope  12 '') = u ''Big Scope '' @ 32 # u ''12''"
    by (simp add: eval_text)
  have 3: "strip (u ''Big Scope'') = u ''Big Scope''"
    by (simp add: eval_text)
  have 4: "\<not> (\<exists>a b. u ''Big Scope'' = a @ 32 # b \<and> 32 \<notin> set b \<and> isdigit b)"
  proof
    assume "\<exists>a b. u ''Big Scope'' = a @ 32 # b \<and> 32 \<notin> set b \<and> isdigit b"
    then obtain a b where ab: "u ''Big Scope'' = a @ 32 # b" "32 \<notin> set b" "isdigit b" by blast
    have l: "rsplit1 32 (a @ 32 # b) = [a, b]" using ab(2) by (rule rsplit1_at)
    have r: "rsplit1 32 (u ''Big'' @ 32 # u ''Scope'') = [u ''Big'', u ''Scope'']"
      by (rule rsplit1_at) simp
    have "u ''Big Scope'' = u ''Big'' @ 32 # u ''Scope''" by simp
    with ab(1) have "a @ 32 # b = u ''Big'' @ 32 # u ''Scope''" by simp
    with l r have "b = u ''Scope''" by simp
    with ab(3) show False by (simp add: eval_text)
  qed
  have 5: "map_of (parse_resources (u ''a:1;b:2;a:5'')) (u ''a'') = Some 5"
    by (simp add: eval_text)
  from parse_resources_rules[where chunk = "u '' Laptop : x3 ''" and nm = "u ''Laptop ''"
      and qty = "u '' x3''"]
  have a: "parse_chunk (u '' Laptop : x3 '') = Some (u ''Laptop'', 1)"
    using 1 by (simp add: eval_text)
  from parse_resources_rules[where chunk = "u '' Big Scope  12 ''" and nm = "u ''Big Scope ''"
      and tok = "u ''12''"]
  have b: "parse_chunk (u '' Big Scope  12 '') = Some (u ''Big Scope'', 12)"
    using 2 by (simp add: eval_text)
  from parse_resources_rules[where chunk = "u ''Big Scope''"]
  have c: "parse_chunk (u ''Big Scope'') = Some (u ''Big Scope'', 1)"
    using 3 4 by simp
  from parse_resources_rules[where chunk = "u ''  ''"]
  have d: "parse_chunk (u ''  '') = None"
    by (simp add: eval_text)
  from a b c d 5 show ?thesis by simp
qed

text \<open>
  The claim as the specification words it fails where the last token is set off by
  whitespace other than a space.  In \<open>Widget<TAB>2\<close> the last whitespace-separated token is
  \<open>2\<close>; the code splits at U+0020 only and binds the whole chunk to 1.  The same happens
  with a no-break space (U+00A0) in place of the tab.
\<close>

theorem parse_resources_tab_counterexample:
  "isspace 9 \<and> isdigit (u ''2'')
   \<and> parse_resources (u ''Widget'' @ 9 # u ''2'') = [(u ''Widget'' @ 9 # u ''2'', 1)]
   \<and> parse_resources (u ''Widget'' @ 9 # u ''2'') \<noteq> [(u ''Widget'', 2)]
   \<and> isspace 160
   \<and> parse_resources (u ''Widget'' @ 160 # u ''2'') = [(u ''Widget'' @ 160 # u ''2'', 1)]"
  by (simp add: eval_text)

section \<open>When the parser returns nothing\<close>

lemma parse_resources_Nil_chunks:
  "parse_resources text = [] \<longleftrightarrow>
   (\<forall>c\<in>\<Union>(set ` set (split_on 59 (normalize_separators text))). isspace c)"
  by (auto simp: parse_resources_def parse_chunks_Nil parse_chunk_None strip_eq_Nil)

text \<open>
  C8, as the code has it.  \<open>parse_resources\<close> returns the empty mapping exactly when the
  input holds nothing but separators (semicolon, comma, newline) and whitespace: a blank
  chunk is skipped.  So the empty input gives the empty mapping, and so does every input
  without a character that is neither separator nor whitespace; every other input gives
  a mapping that is not empty.
\<close>

theorem parse_resources_empty_iff:
  "parse_resources text = [] \<longleftrightarrow> (\<forall>c\<in>set text. c = 59 \<or> c = 44 \<or> isspace c)"
proof -
  have "set (normalize_separators text) - {59} = set text - {59, 44, 10}"
    by (auto simp: normalize_separators_map)
  then have "parse_resources text = [] \<longleftrightarrow> (\<forall>c\<in>set text - {59, 44, 10}. isspace c)"
    by (simp add: parse_resources_Nil_chunks split_on_chars)
  moreover have "isspace 10" by (simp add: isspace_def)
  ultimately show ?thesis by auto
qed

theorem parse_resources_empty_iff_witness:
  "parse_resources (u '' ;, ; '') = [] \<and> parse_resources [] = []
   \<and> parse_resources (u '';x'') \<noteq> []"
  using parse_resources_empty_iff[of "u '' ;, ; ''"] parse_resources_empty_iff[of "[]"]
    parse_resources_empty_iff[of "u '';x''"]
  by (simp add: isspace_def)

text \<open>The input \<open>;\<close> is not empty, and its mapping is.\<close>

theorem parse_resources_nonempty_counterexample:
  "u '';'' \<noteq> [] \<and> parse_resources (u '';'') = []"
  by (simp add: eval_text)

section \<open>Quantities that are not positive\<close>

lemma normalize_no_separators:
  "\<forall>c\<in>set t. c \<noteq> 59 \<and> c \<noteq> 44 \<and> c \<noteq> 10 \<Longrightarrow> normalize_separators t = t"
  by (simp add: normalize_separators_map map_idI)

lemma int_or_1_rstrip: "int_or_1 (rev (dropWhile isspace (rev qty))) = int_or_1 qty"
  by (simp add: int_or_1_def strip_rstrip)

lemma chunk_name_colon_quantity:
  assumes "py_int qty = Some n" and "58 \<notin> set nm"
  shows "parse_chunk (nm @ 58 # qty) = Some (strip nm, n)"
proof -
  have s: "strip (nm @ 58 # qty) = dropWhile isspace nm @ 58 # rev (dropWhile isspace (rev qty))"
    by (rule strip_around) (simp add: isspace_def)
  have "58 \<notin> set (dropWhile isspace nm)"
    using assms(2) by (auto dest: set_dropWhileD)
  moreover have q: "int_or_1 (rev (dropWhile isspace (rev qty))) = n"
    unfolding int_or_1_rstrip using assms(1) by (simp add: int_or_1_py_int)
  ultimately show ?thesis
    using chunk_colon[OF s] by (simp add: strip_lstrip)
qed

text \<open>
  C10.  \<open>parse_resources\<close> puts no lower bound on a quantity it reads.  A chunk
  \<open>name:q\<close> whose \<open>q\<close> converts to the integer \<open>n\<close> binds the trimmed name to \<open>n\<close>, whatever
  the sign of \<open>n\<close>: as the whole input it gives the mapping with that one entry, and as the
  last chunk of a longer input it decides the quantity of its name.  So \<open>Laptop:0\<close> gives
  Laptop 0 and \<open>Laptop:-3\<close> gives Laptop -3, quantities below 1.
\<close>

theorem parse_resources_any_integer:
  assumes "py_int qty = Some n" and "58 \<notin> set nm"
    and "\<forall>c\<in>set (nm @ qty). c \<noteq> 59 \<and> c \<noteq> 44 \<and> c \<noteq> 10"
  shows "parse_resources (nm @ 58 # qty) = [(strip nm, n)]
    \<and> map_of (parse_resources (before @ 59 # nm @ 58 # qty)) (strip nm) = Some n
    \<and> parse_resources (u ''Laptop:0'') = [(u ''Laptop'', 0)]
    \<and> parse_resources (u ''Laptop:-3'') = [(u ''Laptop'', - 3)]"
proof -
  let ?chunk = "nm @ 58 # qty"
  have ns: "\<forall>c\<in>set ?chunk. c \<noteq> 59 \<and> c \<noteq> 44 \<and> c \<noteq> 10"
    using assms(3) by auto
  then have nc: "normalize_separators ?chunk = ?chunk"
    by (rule normalize_no_separators)
  have n59: "59 \<notin> set ?chunk" using ns by blast
  have pc: "parse_chunk ?chunk = Some (strip nm, n)"
    using assms(1,2) by (rule chunk_name_colon_quantity)
  have 1: "parse_resources ?chunk = [(strip nm, n)]"
    using pc n59 by (simp add: parse_resources_def nc split_on_no_sep del: split_on.simps)
  have "normalize_separators (before @ 59 # ?chunk) = normalize_separators before @ 59 # ?chunk"
    using nc by (simp add: normalize_separators_map)
  moreover have sp: "split_on 59 ?chunk = [?chunk]"
    using n59 by (rule split_on_no_sep)
  ultimately have "split_on 59 (normalize_separators (before @ 59 # ?chunk))
      = split_on 59 (normalize_separators before) @ [?chunk]"
    by (simp only: split_on_append)
  then have 2: "map_of (parse_resources (before @ 59 # ?chunk)) (strip nm) = Some n"
    using pc by (simp add: parse_resources_def map_of_parse_chunks List.map_filter_def)
  have 3: "parse_resources (u ''Laptop:0'') = [(u ''Laptop'', 0)]"
    by (simp add: eval_text)
  have 4: "parse_resources (u ''Laptop:-3'') = [(u ''Laptop'', - 3)]"
    by (simp add: eval_text)
  from 1 2 3 4 show ?thesis by simp
qed

theorem parse_resources_any_integer_witness:
  "py_int (u '' -3 '') = Some (- 3)
   \<and> parse_resources (u '' Laptop : -3 '') = [(u ''Laptop'', - 3)]
   \<and> map_of (parse_resources (u ''Laptop:2; Laptop : -3 '')) (u ''Laptop'') = Some (- 3)"
proof -
  have p: "py_int (u '' -3 '') = Some (- 3)" by (simp add: eval_text)
  have s: "strip (u '' Laptop '') = u ''Laptop''" by (simp add: eval_text)
  from parse_resources_any_integer[OF p, of "u '' Laptop ''" "u ''Laptop:2''"] s
  have "parse_resources (u '' Laptop '' @ 58 # u '' -3 '') = [(u ''Laptop'', - 3)]
    \<and> map_of (parse_resources (u ''Laptop:2'' @ 59 # u '' Laptop '' @ 58 # u '' -3 ''))
        (u ''Laptop'') = Some (- 3)"
    by simp
  then show ?thesis using p by simp
qed

section \<open>The catalog keyboard\<close>

lemma str_nat_value: "foldl (\<lambda>a d. 10 * a + (d - 48)) 0 (str_nat n) = n"
proof (induction n rule: str_nat.induct)
  case (1 n)
  show ?case
  proof (cases "n < 10")
    case True
    then show ?thesis by (subst str_nat.simps) simp
  next
    case False
    then show ?thesis using 1 by (subst str_nat.simps) simp
  qed
qed

lemma str_nat_inject: "str_nat i = str_nat j \<Longrightarrow> i = j"
  by (metis str_nat_value)

lemma item_key_inject: "item_key i = item_key j \<longleftrightarrow> i = j"
  by (auto simp: item_key_def dest: str_nat_inject)

lemma build_callback_map_snoc:
  "build_callback_map (items @ [x]) =
     dict_set (build_callback_map items) (item_key (length items)) (fst x)"
  by (cases x) (simp add: build_callback_map_def enumerate_append_eq)

lemma dict_set_new: "k \<notin> fst ` set d \<Longrightarrow> dict_set d k v = d @ [(k, v)]"
  by (induction d) auto

lemma build_callback_map_list:
  "build_callback_map items =
     map (\<lambda>idx. (item_key idx, fst (items ! idx))) [0..<length items]"
proof (induction items rule: rev_induct)
  case Nil
  show ?case by (simp add: build_callback_map_def)
next
  case (snoc x items)
  have new: "item_key (length items) \<notin> fst ` set (build_callback_map items)"
    by (auto simp: snoc item_key_inject)
  have "build_callback_map (items @ [x])
      = build_callback_map items @ [(item_key (length items), fst x)]"
    by (simp only: build_callback_map_snoc dict_set_new[OF new])
  also have "\<dots> = map (\<lambda>idx. (item_key idx, fst (items ! idx))) [0..<length items]
      @ [(item_key (length items), fst x)]"
    by (simp only: snoc)
  also have "\<dots> = map (\<lambda>idx. (item_key idx, fst ((items @ [x]) ! idx))) [0..<length (items @ [x])]"
    by (simp add: nth_append)
  finally show ?case .
qed

lemma callback_map_lookup:
  "idx < length items \<Longrightarrow>
   map_of (build_callback_map items) (item_key idx) = Some (fst (items ! idx))"
proof -
  assume i: "idx < length items"
  have d: "distinct (map fst (build_callback_map items))"
    by (simp add: build_callback_map_list distinct_map inj_on_def item_key_inject comp_def)
  have "(item_key idx, fst (items ! idx)) \<in> set (build_callback_map items)"
    using i by (auto simp: build_callback_map_list)
  with d show ?thesis by simp
qed

lemma ceil_div_ceiling:
  "b \<noteq> 0 \<Longrightarrow> ceil_div a b = \<lceil>real_of_int a / real_of_int b\<rceil>"
proof -
  have "\<lceil>real_of_int a / real_of_int b\<rceil> = - \<lfloor>real_of_int (- a) / real_of_int b\<rfloor>"
    by (simp add: ceiling_def)
  then show ?thesis by (simp only: floor_divide_of_int_eq ceil_div_def)
qed

lemma normalize_page_cases:
  "1 \<le> total_pages \<Longrightarrow>
   normalize_page page total_pages =
     (if page < 0 then 0 else if total_pages - 1 < page then total_pages - 1 else page)"
  by (simp add: normalize_page_def)

lemma page_of_index_exists:
  fixes page_size :: int
  assumes "0 < page_size" and "idx < total_items"
  shows "int idx div page_size \<le> max 1 \<lceil>real total_items / real_of_int page_size\<rceil> - 1"
proof -
  have "real_of_int (int idx div page_size) \<le> real idx / real_of_int page_size"
    by (metis floor_divide_of_int_eq of_int_floor_le of_int_of_nat_eq)
  also have "\<dots> < real total_items / real_of_int page_size"
    using assms by (simp add: divide_strict_right_mono)
  also have "\<dots> \<le> real_of_int \<lceil>real total_items / real_of_int page_size\<rceil>"
    by (rule le_of_int_ceiling)
  finally have "int idx div page_size < \<lceil>real total_items / real_of_int page_size\<rceil>"
    by simp
  then show ?thesis by simp
qed

lemma page_of_index_unique:
  fixes page_size :: int
  assumes "0 < page_size" and "idx < total_items"
  shows "nat (p * page_size) \<le> idx \<and> idx < nat (min (p * page_size + page_size) (int total_items)) \<and> 0 \<le> p
         \<longleftrightarrow> p = int idx div page_size"
proof
  assume a: "nat (p * page_size) \<le> idx \<and> idx < nat (min (p * page_size + page_size) (int total_items)) \<and> 0 \<le> p"
  then have "0 \<le> p * page_size" using assms(1) by simp
  with a have 1: "p * page_size \<le> int idx" by linarith
  from a have 2: "int idx < p * page_size + page_size" by linarith
  have e: "int idx = page_size * p + (int idx - p * page_size)" by (simp add: mult.commute)
  have r0: "0 \<le> int idx - p * page_size" using 1 by simp
  have r1: "int idx - p * page_size < page_size" using 2 by simp
  have "int idx div page_size = p"
    using e r0 r1 by (rule int_div_pos_eq)
  then show "p = int idx div page_size" by simp
next
  assume p: "p = int idx div page_size"
  have m: "int idx div page_size * page_size + int idx mod page_size = int idx"
    by (rule div_mult_mod_eq)
  have m0: "0 \<le> int idx mod page_size" and m1: "int idx mod page_size < page_size"
    using assms(1) by simp_all
  have p0: "0 \<le> p" unfolding p using assms(1) by (simp add: pos_imp_zdiv_nonneg_iff)
  from m m0 have 1: "p * page_size \<le> int idx" unfolding p by linarith
  from m m1 have 2: "int idx < p * page_size + page_size" unfolding p by linarith
  have 3: "nat (p * page_size) \<le> idx" using 1 by (simp add: nat_le_iff)
  have 4: "idx < nat (min (p * page_size + page_size) (int total_items))"
    using 2 assms(2) by (simp add: zless_nat_eq_int_zless)
  from 3 4 p0
  show "nat (p * page_size) \<le> idx \<and> idx < nat (min (p * page_size + page_size) (int total_items)) \<and> 0 \<le> p"
    by simp
qed

text \<open>
  C6.  For a page size other than 0, and so for the fixed \<open>PAGE_SIZE = 10\<close>,
  \<open>build_inventory_keyboard\<close> returns exactly the following.  \<open>total_pages\<close> is
  \<open>max(1, ceil(total / page_size))\<close>.  The page shown is the requested page clamped into
  \<open>[0, total_pages - 1]\<close>: a page of that range is kept, a negative page becomes 0 and a
  page beyond the last becomes the last.  The rows are one button for each catalog index
  from \<open>shown * page_size\<close> up to, not including, \<open>min(shown * page_size + page_size, total)\<close>,
  labelled with the item's name and count and carrying \<open>select:\<close> and the item's key; then
  the row of the cart and the finish buttons and the row of the manual input; and, only
  when there is more than one page, the navigation row.  The key map has the key \<open>i{idx}\<close>
  for every index of the catalog, whatever the page, so that the key of any item resolves
  to that item's name under the map of any rendering.  For a positive page size the pages
  divide the catalog: the item \<open>idx\<close> is listed on the page \<open>idx div page_size\<close>, which is
  one of the pages, and on no other page.
\<close>

theorem build_inventory_keyboard_pages:
  assumes "page_size \<noteq> 0"
  shows
    "(let total_items = length inventory;
          total_pages = max 1 \<lceil>real total_items / real_of_int page_size\<rceil>;
          shown = (if page < 0 then 0 else if total_pages - 1 < page then total_pages - 1 else page);
          first = nat (shown * page_size);
          bound = nat (min (shown * page_size + page_size) (int total_items));
          key_map = map (\<lambda>idx. (item_key idx, fst (inventory ! idx))) [0..<total_items]
      in
        build_inventory_keyboard inventory page page_size =
          Inr (map (\<lambda>idx. [\<lparr>label = ItemLabel (fst (inventory ! idx)) (snd (inventory ! idx)),
                              callback_data = u ''select:'' @ item_key idx\<rparr>])
                 [first ..< bound]
               @ [[\<lparr>label = ViewCartLabel, callback_data = u ''view_cart''\<rparr>,
                   \<lparr>label = FinishLabel, callback_data = u ''finish_selection''\<rparr>],
                  [\<lparr>label = ManualLabel, callback_data = u ''manual_input''\<rparr>]]
               @ (if 1 < total_pages
                  then [(if 0 < shown
                         then [\<lparr>label = PrevLabel,
                                 callback_data = u ''page:'' @ str_int (shown - 1)\<rparr>]
                         else [])
                        @ [\<lparr>label = PageLabel (shown + 1) total_pages,
                              callback_data = u ''page:'' @ str_int shown\<rparr>]
                        @ (if shown < total_pages - 1
                           then [\<lparr>label = NextLabel,
                                   callback_data = u ''page:'' @ str_int (shown + 1)\<rparr>]
                           else [])]
                  else []),
               key_map, total_pages)
        \<and> 0 \<le> shown \<and> shown \<le> total_pages - 1
        \<and> (0 \<le> page \<and> page \<le> total_pages - 1 \<longrightarrow> shown = page)
        \<and> (\<forall>idx<total_items. map_of key_map (item_key idx) = Some (fst (inventory ! idx)))
        \<and> (0 < page_size \<longrightarrow>
             (\<forall>idx<total_items.
                int idx div page_size \<le> total_pages - 1
                \<and> (\<forall>p. nat (p * page_size) \<le> idx
                        \<and> idx < nat (min (p * page_size + page_size) (int total_items)) \<and> 0 \<le> p
                      \<longleftrightarrow> p = int idx div page_size))))"
proof -
  let ?tp = "max 1 \<lceil>real (length inventory) / real_of_int page_size\<rceil>"
  let ?shown = "if page < 0 then 0 else if ?tp - 1 < page then ?tp - 1 else page"
  have tp: "max 1 (ceil_div (int (length inventory)) page_size) = ?tp"
    using assms by (simp add: ceil_div_ceiling)
  have n: "normalize_page page ?tp = ?shown"
    by (rule normalize_page_cases) simp
  have b: "build_inventory_keyboard inventory page page_size =
          Inr (map (\<lambda>idx. [\<lparr>label = ItemLabel (fst (inventory ! idx)) (snd (inventory ! idx)),
                              callback_data = u ''select:'' @ item_key idx\<rparr>])
                 [nat (?shown * page_size) ..<
                  nat (min (?shown * page_size + page_size) (int (length inventory)))]
               @ [[\<lparr>label = ViewCartLabel, callback_data = u ''view_cart''\<rparr>,
                   \<lparr>label = FinishLabel, callback_data = u ''finish_selection''\<rparr>],
                  [\<lparr>label = ManualLabel, callback_data = u ''manual_input''\<rparr>]]
               @ (if 1 < ?tp
                  then [(if 0 < ?shown
                         then [\<lparr>label = PrevLabel,
                                 callback_data = u ''page:'' @ str_int (?shown - 1)\<rparr>]
                         else [])
                        @ [\<lparr>label = PageLabel (?shown + 1) ?tp,
                              callback_data = u ''page:'' @ str_int ?shown\<rparr>]
                        @ (if ?shown < ?tp - 1
                           then [\<lparr>label = NextLabel,
                                   callback_data = u ''page:'' @ str_int (?shown + 1)\<rparr>]
                           else [])]
                  else []),
               map (\<lambda>idx. (item_key idx, fst (inventory ! idx))) [0..<length inventory], ?tp)"
    unfolding build_inventory_keyboard_def Let_def tp n build_callback_map_list
    using assms by (simp add: item_button_def [abs_def])
  have r: "0 \<le> ?shown \<and> ?shown \<le> ?tp - 1 \<and> (0 \<le> page \<and> page \<le> ?tp - 1 \<longrightarrow> ?shown = page)"
    by (simp add: max_def)
  have l: "\<forall>idx<length inventory.
            map_of (map (\<lambda>idx. (item_key idx, fst (inventory ! idx))) [0..<length inventory])
              (item_key idx) = Some (fst (inventory ! idx))"
    using callback_map_lookup[of _ inventory] by (simp add: build_callback_map_list)
  have p: "0 < page_size \<longrightarrow>
             (\<forall>idx<length inventory.
                int idx div page_size \<le> ?tp - 1
                \<and> (\<forall>p. nat (p * page_size) \<le> idx
                        \<and> idx < nat (min (p * page_size + page_size) (int (length inventory)))
                        \<and> 0 \<le> p
                      \<longleftrightarrow> p = int idx div page_size))"
    using page_of_index_exists page_of_index_unique by blast
  from b r l p show ?thesis unfolding Let_def by blast
qed

lemma length_catalog23: "length catalog23 = 23"
  by (simp add: catalog23_def)

lemma catalog23_15: "fst (catalog23 ! 15) = u ''Item15''"
  by (simp add: catalog23_def str_nat.simps)

text \<open>
  23 items at the page size 10 give 3 pages.  Page 0 lists the items 0 to 9, page 1 the
  items 10 to 19 and page 2 the items 20 to 22; the requested page 7 is rendered as page
  2 and the requested page -3 as page 0.  Under the key map of each rendering \<open>i15\<close> is
  \<open>Item15\<close>, which only page 1 lists.
\<close>

theorem build_inventory_keyboard_pages_witness:
  "PAGE_SIZE \<noteq> 0
   \<and> (\<exists>rows cmap. build_inventory_keyboard catalog23 0 PAGE_SIZE = Inr (rows, cmap, 3)
        \<and> take 10 rows =
            map (\<lambda>idx. [\<lparr>label = ItemLabel (u ''Item'' @ str_nat idx) 1,
                           callback_data = u ''select:i'' @ str_nat idx\<rparr>]) [0..<10]
        \<and> drop 10 rows =
            [[\<lparr>label = ViewCartLabel, callback_data = u ''view_cart''\<rparr>,
              \<lparr>label = FinishLabel, callback_data = u ''finish_selection''\<rparr>],
             [\<lparr>label = ManualLabel, callback_data = u ''manual_input''\<rparr>],
             [\<lparr>label = PageLabel 1 3, callback_data = u ''page:0''\<rparr>,
              \<lparr>label = NextLabel, callback_data = u ''page:1''\<rparr>]]
        \<and> map_of cmap (u ''i15'') = Some (u ''Item15''))
   \<and> (\<exists>rows cmap. build_inventory_keyboard catalog23 1 PAGE_SIZE = Inr (rows, cmap, 3)
        \<and> take 10 rows =
            map (\<lambda>idx. [\<lparr>label = ItemLabel (u ''Item'' @ str_nat idx) 1,
                           callback_data = u ''select:i'' @ str_nat idx\<rparr>]) [10..<20]
        \<and> drop 10 rows =
            [[\<lparr>label = ViewCartLabel, callback_data = u ''view_cart''\<rparr>,
              \<lparr>label = FinishLabel, callback_data = u ''finish_selection''\<rparr>],
             [\<lparr>label = ManualLabel, callback_data = u ''manual_input''\<rparr>],
             [\<lparr>label = PrevLabel, callback_data = u ''page:0''\<rparr>,
              \<lparr>label = PageLabel 2 3, callback_data = u ''page:1''\<rparr>,
              \<lparr>label = NextLabel, callback_data = u ''page:2''\<rparr>]]
        \<and> map_of cmap (u ''i15'') = Some (u ''Item15''))
   \<and> (\<exists>cmap. build_inventory_keyboard catalog23 2 PAGE_SIZE =
          Inr ([[\<lparr>label = ItemLabel (u ''Item20'') 1, callback_data = u ''select:i20''\<rparr>],
                [\<lparr>label = ItemLabel (u ''Item21'') 1, callback_data = u ''select:i21''\<rparr>],
                [\<lparr>label = ItemLabel (u ''Item22'') 1, callback_data = u ''select:i22''\<rparr>],
                [\<lparr>label = ViewCartLabel, callback_data = u ''view_cart''\<rparr>,
                 \<lparr>label = FinishLabel, callback_data = u ''finish_selection''\<rparr>],
                [\<lparr>label = ManualLabel, callback_data = u ''manual_input''\<rparr>],
                [\<lparr>label = PrevLabel, callback_data = u ''page:1''\<rparr>,
                 \<lparr>label = PageLabel 3 3, callback_data = u ''page:2''\<rparr>]],
               cmap, 3)
        \<and> map_of cmap (u ''i15'') = Some (u ''Item15''))
   \<and> build_inventory_keyboard catalog23 7 PAGE_SIZE = build_inventory_keyboard catalog23 2 PAGE_SIZE
   \<and> build_inventory_keyboard catalog23 (- 3) PAGE_SIZE
       = build_inventory_keyboard catalog23 0 PAGE_SIZE
   \<and> (\<forall>p. nat (p * PAGE_SIZE) \<le> 15 \<and> 15 < nat (min (p * PAGE_SIZE + PAGE_SIZE) 23) \<and> 0 \<le> p
          \<longleftrightarrow> p = 1)"
proof -
  have ps: "PAGE_SIZE \<noteq> 0" by (simp add: PAGE_SIZE_def)
  have k: "item_key 15 = u ''i15''" by (simp add: item_key_def str_nat.simps)
  have c: "\<lceil>real 23 / real_of_int 10\<rceil> = 3" by (simp add: ceiling_divide_eq_div_numeral)
  let ?cm = "map (\<lambda>idx. (item_key idx, fst (catalog23 ! idx))) [0..<23]"
  note t0 = build_inventory_keyboard_pages[OF ps, of catalog23 0, unfolded Let_def length_catalog23]
  note t1 = build_inventory_keyboard_pages[OF ps, of catalog23 1, unfolded Let_def length_catalog23]
  note t2 = build_inventory_keyboard_pages[OF ps, of catalog23 2, unfolded Let_def length_catalog23]
  note t7 = build_inventory_keyboard_pages[OF ps, of catalog23 7, unfolded Let_def length_catalog23]
  note tm = build_inventory_keyboard_pages[OF ps, of catalog23 "- 3", unfolded Let_def length_catalog23]
  have m: "map_of ?cm (u ''i15'') = Some (u ''Item15'')"
  proof -
    from t0 have "\<forall>idx<23. map_of ?cm (item_key idx) = Some (fst (catalog23 ! idx))"
      by blast
    then have "map_of ?cm (item_key 15) = Some (fst (catalog23 ! 15))" by simp
    then show ?thesis by (simp only: k catalog23_15)
  qed
  have e0: "build_inventory_keyboard catalog23 0 PAGE_SIZE =
      Inr (map (\<lambda>idx. [\<lparr>label = ItemLabel (fst (catalog23 ! idx)) (snd (catalog23 ! idx)),
                          callback_data = u ''select:'' @ item_key idx\<rparr>]) [0..<10]
           @ [[\<lparr>label = ViewCartLabel, callback_data = u ''view_cart''\<rparr>,
               \<lparr>label = FinishLabel, callback_data = u ''finish_selection''\<rparr>],
              [\<lparr>label = ManualLabel, callback_data = u ''manual_input''\<rparr>],
              [\<lparr>label = PageLabel 1 3, callback_data = u ''page:0''\<rparr>,
               \<lparr>label = NextLabel, callback_data = u ''page:1''\<rparr>]],
           ?cm, 3)"
    using t0[THEN conjunct1] by (simp add: PAGE_SIZE_def c str_int_def str_nat.simps)
  have e1: "build_inventory_keyboard catalog23 1 PAGE_SIZE =
      Inr (map (\<lambda>idx. [\<lparr>label = ItemLabel (fst (catalog23 ! idx)) (snd (catalog23 ! idx)),
                          callback_data = u ''select:'' @ item_key idx\<rparr>]) [10..<20]
           @ [[\<lparr>label = ViewCartLabel, callback_data = u ''view_cart''\<rparr>,
               \<lparr>label = FinishLabel, callback_data = u ''finish_selection''\<rparr>],
              [\<lparr>label = ManualLabel, callback_data = u ''manual_input''\<rparr>],
              [\<lparr>label = PrevLabel, callback_data = u ''page:0''\<rparr>,
               \<lparr>label = PageLabel 2 3, callback_data = u ''page:1''\<rparr>,
               \<lparr>label = NextLabel, callback_data = u ''page:2''\<rparr>]],
           ?cm, 3)"
    using t1[THEN conjunct1] by (simp add: PAGE_SIZE_def c str_int_def str_nat.simps)
  have e2: "build_inventory_keyboard catalog23 2 PAGE_SIZE =
      Inr (map (\<lambda>idx. [\<lparr>label = ItemLabel (fst (catalog23 ! idx)) (snd (catalog23 ! idx)),
                          callback_data = u ''select:'' @ item_key idx\<rparr>]) [20..<23]
           @ [[\<lparr>label = ViewCartLabel, callback_data = u ''view_cart''\<rparr>,
               \<lparr>label = FinishLabel, callback_data = u ''finish_selection''\<rparr>],
              [\<lparr>label = ManualLabel, callback_data = u ''manual_input''\<rparr>],
              [\<lparr>label = PrevLabel, callback_data = u ''page:1''\<rparr>,
               \<lparr>label = PageLabel 3 3, callback_data = u ''page:2''\<rparr>]],
           ?cm, 3)"
    using t2[THEN conjunct1] by (simp add: PAGE_SIZE_def c str_int_def str_nat.simps)
  have e7: "build_inventory_keyboard catalog23 7 PAGE_SIZE
      = build_inventory_keyboard catalog23 2 PAGE_SIZE"
    unfolding e2 using t7[THEN conjunct1] by (simp add: PAGE_SIZE_def c str_int_def str_nat.simps)
  have em: "build_inventory_keyboard catalog23 (- 3) PAGE_SIZE
      = build_inventory_keyboard catalog23 0 PAGE_SIZE"
    unfolding e0 using tm[THEN conjunct1] by (simp add: PAGE_SIZE_def c str_int_def str_nat.simps)
  have i: "\<And>idx. idx < 23 \<Longrightarrow> fst (catalog23 ! idx) = u ''Item'' @ str_nat idx
      \<and> snd (catalog23 ! idx) = 1"
    by (simp add: catalog23_def)
  have r0: "map (\<lambda>idx. [\<lparr>label = ItemLabel (fst (catalog23 ! idx)) (snd (catalog23 ! idx)),
                          callback_data = u ''select:'' @ item_key idx\<rparr>]) [0..<10]
      = map (\<lambda>idx. [\<lparr>label = ItemLabel (u ''Item'' @ str_nat idx) 1,
                           callback_data = u ''select:i'' @ str_nat idx\<rparr>]) [0..<10]"
    by (rule map_cong) (auto simp add: i item_key_def)
  have r1: "map (\<lambda>idx. [\<lparr>label = ItemLabel (fst (catalog23 ! idx)) (snd (catalog23 ! idx)),
                          callback_data = u ''select:'' @ item_key idx\<rparr>]) [10..<20]
      = map (\<lambda>idx. [\<lparr>label = ItemLabel (u ''Item'' @ str_nat idx) 1,
                           callback_data = u ''select:i'' @ str_nat idx\<rparr>]) [10..<20]"
    by (rule map_cong) (auto simp add: i item_key_def)
  have r2: "map (\<lambda>idx. [\<lparr>label = ItemLabel (fst (catalog23 ! idx)) (snd (catalog23 ! idx)),
                          callback_data = u ''select:'' @ item_key idx\<rparr>]) [20..<23]
      = [[\<lparr>label = ItemLabel (u ''Item20'') 1, callback_data = u ''select:i20''\<rparr>],
         [\<lparr>label = ItemLabel (u ''Item21'') 1, callback_data = u ''select:i21''\<rparr>],
         [\<lparr>label = ItemLabel (u ''Item22'') 1, callback_data = u ''select:i22''\<rparr>]]"
    by (simp add: i item_key_def str_nat.simps)
  have a0: "\<exists>rows cmap. build_inventory_keyboard catalog23 0 PAGE_SIZE = Inr (rows, cmap, 3)
        \<and> take 10 rows =
            map (\<lambda>idx. [\<lparr>label = ItemLabel (u ''Item'' @ str_nat idx) 1,
                           callback_data = u ''select:i'' @ str_nat idx\<rparr>]) [0..<10]
        \<and> drop 10 rows =
            [[\<lparr>label = ViewCartLabel, callback_data = u ''view_cart''\<rparr>,
              \<lparr>label = FinishLabel, callback_data = u ''finish_selection''\<rparr>],
             [\<lparr>label = ManualLabel, callback_data = u ''manual_input''\<rparr>],
             [\<lparr>label = PageLabel 1 3, callback_data = u ''page:0''\<rparr>,
              \<lparr>label = NextLabel, callback_data = u ''page:1''\<rparr>]]
        \<and> map_of cmap (u ''i15'') = Some (u ''Item15'')"
    unfolding e0 r0 using m by simp
  have a1: "\<exists>rows cmap. build_inventory_keyboard catalog23 1 PAGE_SIZE = Inr (rows, cmap, 3)
        \<and> take 10 rows =
            map (\<lambda>idx. [\<lparr>label = ItemLabel (u ''Item'' @ str_nat idx) 1,
                           callback_data = u ''select:i'' @ str_nat idx\<rparr>]) [10..<20]
        \<and> drop 10 rows =
            [[\<lparr>label = ViewCartLabel, callback_data = u ''view_cart''\<rparr>,
              \<lparr>label = FinishLabel, callback_data = u ''finish_selection''\<rparr>],
             [\<lparr>label = ManualLabel, callback_data = u ''manual_input''\<rparr>],
             [\<lparr>label = PrevLabel, callback_data = u ''page:0''\<rparr>,
              \<lparr>label = PageLabel 2 3, callback_data = u ''page:1''\<rparr>,
              \<lparr>label = NextLabel, callback_data = u ''page:2''\<rparr>]]
        \<and> map_of cmap (u ''i15'') = Some (u ''Item15'')"
    unfolding e1 r1 using m by simp
  have a2: "\<exists>cmap. build_inventory_keyboard catalog23 2 PAGE_SIZE =
          Inr ([[\<lparr>label = ItemLabel (u ''Item20'') 1, callback_data = u ''select:i20''\<rparr>],
                [\<lparr>label = ItemLabel (u ''Item21'') 1, callback_data = u ''select:i21''\<rparr>],
                [\<lparr>label = ItemLabel (u ''Item22'') 1, callback_data = u ''select:i22''\<rparr>],
                [\<lparr>label = ViewCartLabel, callback_data = u ''view_cart''\<rparr>,
                 \<lparr>label = FinishLabel, callback_data = u ''finish_selection''\<rparr>],
                [\<lparr>label = ManualLabel, callback_data = u ''manual_input''\<rparr>],
                [\<lparr>label = PrevLabel, callback_data = u ''page:1''\<rparr>,
                 \<lparr>label = PageLabel 3 3, callback_data = u ''page:2''\<rparr>]],
               cmap, 3)
        \<and> map_of cmap (u ''i15'') = Some (u ''Item15'')"
    unfolding e2 r2 using m by simp
  have pg: "\<forall>p. nat (p * PAGE_SIZE) \<le> 15 \<and> 15 < nat (min (p * PAGE_SIZE + PAGE_SIZE) 23) \<and> 0 \<le> p
          \<longleftrightarrow> p = 1"
  proof -
    have "0 < PAGE_SIZE" by (simp add: PAGE_SIZE_def)
    with t0 have "\<forall>p. nat (p * PAGE_SIZE) \<le> 15
                        \<and> 15 < nat (min (p * PAGE_SIZE + PAGE_SIZE) (int 23)) \<and> 0 \<le> p
                      \<longleftrightarrow> p = int 15 div PAGE_SIZE"
      by simp
    then show ?thesis by (simp add: PAGE_SIZE_def)
  qed
  from ps a0 a1 a2 e7 em pg show ?thesis by blast
qed

section \<open>Keys that are out of date\<close>

lemmas eval_keys = get_name_def or_empty_def build_cart_map_def cart_key_def item_key_def
  str_nat.simps enumerate_eq_zip dict_pop_def show_cart_again_def view_cart_def
  cart_keyboard_def

lemma split1_select: "split1 58 (u ''select:'' @ key) = [u ''select'', key]"
  using split1_at[of 58 "u ''select''" key] by simp

lemma split_on_cart:
  "58 \<notin> set key \<Longrightarrow> 58 \<notin> set action \<Longrightarrow>
   split_on 58 (u ''cart:'' @ action @ 58 # key) = [u ''cart'', action, key]"
  using split_on_append[of 58 "u ''cart''" "action @ 58 # key"] split_on_append[of 58 action key]
  by (simp add: split_on_no_sep del: split_on.simps)

lemma build_inventory_keyboard_page0:
  "\<exists>kb total_pages. build_inventory_keyboard inventory 0 PAGE_SIZE =
     Inr (kb, map (\<lambda>idx. (item_key idx, fst (inventory ! idx))) [0..<length inventory],
          total_pages)"
  by (simp add: build_inventory_keyboard_def Let_def PAGE_SIZE_def build_callback_map_list)

text \<open>
  C5, as the code has it.  A key is looked up in the key map that the session holds now.
  A key that this map does not hold (or holds with an empty name) is treated as out of
  date, and the handler returns without an exception: \<open>select_equipment\<close> stores the key map
  of the whole current catalog, sets the page to 0 and sends the notice with the keyboard
  of page 0; \<open>cart_actions\<close> sends the notice that asks to open the cart again and changes
  nothing.  A key that the map does hold is resolved to the name the map gives it now:
  \<open>select_equipment\<close> selects that name, the \<open>remove\<close> action removes that name from
  the cart, and the \<open>dec\<close> action takes one off the quantity of that name, or removes the
  name when its quantity is 1 or less.  The handlers do not tell under which map a key
  was issued.
\<close>

theorem key_lookup_uses_current_map:
  "(get_name (or_empty (callback_map s)) key = None \<longrightarrow>
      (\<exists>kb total_pages.
         build_inventory_keyboard (stock w) 0 PAGE_SIZE =
           Inr (kb, map (\<lambda>idx. (item_key idx, fst (stock w ! idx))) [0..<length (stock w)],
                total_pages)
         \<and> select_equipment (u ''select:'' @ key) w s =
           Done (s\<lparr>callback_map :=
                      Some (map (\<lambda>idx. (item_key idx, fst (stock w ! idx))) [0..<length (stock w)]),
                    inv_page := Some 0\<rparr>)
             [Message ButtonStale (Some kb), Ack]))
   \<and> (get_name (or_empty (cart_map s)) key = None \<and> 58 \<notin> set key
        \<and> (action = u ''dec'' \<or> action = u ''remove'') \<longrightarrow>
      cart_actions (u ''cart:'' @ action @ 58 # key) w s =
        Done s [Message CartButtonStale None, Ack])
   \<and> (get_name (or_empty (callback_map s)) key = Some name \<longrightarrow>
      select_equipment (u ''select:'' @ key) w s =
        Done (s\<lparr>temp_select := Some (key, name, 1)\<rparr>)
          [Message (Selected name (dict_get (stock w) name 0) 1)
             (Some (quantity_keyboard key 1)), Ack])
   \<and> (get_name (or_empty (cart_map s)) key = Some name \<and> 58 \<notin> set key
        \<and> name \<in> fst ` set (or_empty (cart s)) \<longrightarrow>
      cart_actions (u ''cart:remove:'' @ key) w s =
        show_cart_again (s\<lparr>cart := Some (dict_pop (or_empty (cart s)) name)\<rparr>)
          [Message (PositionRemovedWhole name) None, Ack])
   \<and> (get_name (or_empty (cart_map s)) key = Some name \<and> 58 \<notin> set key \<longrightarrow>
      cart_actions (u ''cart:dec:'' @ key) w s =
        (if dict_get (or_empty (cart s)) name 0 \<le> 1
         then show_cart_again (s\<lparr>cart := Some (dict_pop (or_empty (cart s)) name)\<rparr>)
                [Message (PositionRemoved name) None, Ack]
         else show_cart_again
                (s\<lparr>cart := Some (dict_set (or_empty (cart s)) name
                                    (dict_get (or_empty (cart s)) name 0 - 1))\<rparr>)
                [Message (Decreased name (dict_get (or_empty (cart s)) name 0 - 1)) None, Ack]))"
proof -
  have a: "get_name (or_empty (callback_map s)) key = None \<Longrightarrow>
      \<exists>kb total_pages.
         build_inventory_keyboard (stock w) 0 PAGE_SIZE =
           Inr (kb, map (\<lambda>idx. (item_key idx, fst (stock w ! idx))) [0..<length (stock w)],
                total_pages)
         \<and> select_equipment (u ''select:'' @ key) w s =
           Done (s\<lparr>callback_map :=
                      Some (map (\<lambda>idx. (item_key idx, fst (stock w ! idx))) [0..<length (stock w)]),
                    inv_page := Some 0\<rparr>)
             [Message ButtonStale (Some kb), Ack]"
    using build_inventory_keyboard_page0[of "stock w"]
    by (auto simp: select_equipment_def split1_select[simplified])
  have b: "get_name (or_empty (cart_map s)) key = None \<Longrightarrow> 58 \<notin> set key \<Longrightarrow>
      action = u ''dec'' \<or> action = u ''remove'' \<Longrightarrow>
      cart_actions (u ''cart:'' @ action @ 58 # key) w s =
        Done s [Message CartButtonStale None, Ack]"
  proof -
    assume g: "get_name (or_empty (cart_map s)) key = None" and k: "58 \<notin> set key"
      and ac: "action = u ''dec'' \<or> action = u ''remove''"
    from ac have "58 \<notin> set action" by auto
    from split_on_cart[OF k this, simplified] g ac show ?thesis
      by (auto simp: cart_actions_def Let_def)
  qed
  have c: "get_name (or_empty (callback_map s)) key = Some name \<Longrightarrow>
      select_equipment (u ''select:'' @ key) w s =
        Done (s\<lparr>temp_select := Some (key, name, 1)\<rparr>)
          [Message (Selected name (dict_get (stock w) name 0) 1)
             (Some (quantity_keyboard key 1)), Ack]"
    by (simp add: select_equipment_def split1_select[simplified] Let_def)
  have d: "get_name (or_empty (cart_map s)) key = Some name \<Longrightarrow> 58 \<notin> set key \<Longrightarrow>
      name \<in> fst ` set (or_empty (cart s)) \<Longrightarrow>
      cart_actions (u ''cart:remove:'' @ key) w s =
        show_cart_again (s\<lparr>cart := Some (dict_pop (or_empty (cart s)) name)\<rparr>)
          [Message (PositionRemovedWhole name) None, Ack]"
  proof -
    assume g: "get_name (or_empty (cart_map s)) key = Some name" and k: "58 \<notin> set key"
      and n: "name \<in> fst ` set (or_empty (cart s))"
    have "58 \<notin> set (u ''remove'')" by simp
    from split_on_cart[OF k this, simplified] g n show ?thesis
      by (simp add: cart_actions_def Let_def)
  qed
  have e: "get_name (or_empty (cart_map s)) key = Some name \<Longrightarrow> 58 \<notin> set key \<Longrightarrow>
      cart_actions (u ''cart:dec:'' @ key) w s =
        (if dict_get (or_empty (cart s)) name 0 \<le> 1
         then show_cart_again (s\<lparr>cart := Some (dict_pop (or_empty (cart s)) name)\<rparr>)
                [Message (PositionRemoved name) None, Ack]
         else show_cart_again
                (s\<lparr>cart := Some (dict_set (or_empty (cart s)) name
                                    (dict_get (or_empty (cart s)) name 0 - 1))\<rparr>)
                [Message (Decreased name (dict_get (or_empty (cart s)) name 0 - 1)) None, Ack])"
  proof -
    assume g: "get_name (or_empty (cart_map s)) key = Some name" and k: "58 \<notin> set key"
    have "58 \<notin> set (u ''dec'')" by simp
    from split_on_cart[OF k this, simplified] g show ?thesis
      by (simp add: cart_actions_def Let_def)
  qed
  from a b c d e show ?thesis by blast
qed

theorem key_lookup_uses_current_map_witness:
  "(\<exists>kb. select_equipment (u ''select:i5'')
        \<lparr>stock = [(u ''Laptop'', 3), (u ''Scope'', 1)], ledger = example_ledger\<rparr>
        (cleared\<lparr>callback_map := Some [(u ''i0'', u ''Laptop'')]\<rparr>)
      = Done (cleared\<lparr>callback_map := Some [(u ''i0'', u ''Laptop''), (u ''i1'', u ''Scope'')],
                       inv_page := Some 0\<rparr>)
          [Message ButtonStale (Some kb), Ack])
   \<and> cart_actions (u ''cart:dec:c7'')
        \<lparr>stock = [(u ''Laptop'', 3), (u ''Scope'', 1)], ledger = example_ledger\<rparr>
        (cleared\<lparr>cart := Some [(u ''Laptop'', 2)], cart_map := Some [(u ''c0'', u ''Laptop'')]\<rparr>)
      = Done (cleared\<lparr>cart := Some [(u ''Laptop'', 2)],
                       cart_map := Some [(u ''c0'', u ''Laptop'')]\<rparr>)
          [Message CartButtonStale None, Ack]
   \<and> select_equipment (u ''select:i0'')
        \<lparr>stock = [(u ''Laptop'', 3), (u ''Scope'', 1)], ledger = example_ledger\<rparr>
        (cleared\<lparr>callback_map := Some [(u ''i0'', u ''Laptop'')]\<rparr>)
      = Done (cleared\<lparr>callback_map := Some [(u ''i0'', u ''Laptop'')],
                       temp_select := Some (u ''i0'', u ''Laptop'', 1)\<rparr>)
          [Message (Selected (u ''Laptop'') 3 1) (Some (quantity_keyboard (u ''i0'') 1)), Ack]
   \<and> cart_actions (u ''cart:remove:c0'')
        \<lparr>stock = [(u ''Laptop'', 3), (u ''Scope'', 1)], ledger = example_ledger\<rparr>
        (cleared\<lparr>cart := Some [(u ''Laptop'', 2)], cart_map := Some [(u ''c0'', u ''Laptop'')]\<rparr>)
      = Done (cleared\<lparr>cart := Some [], cart_map := Some [(u ''c0'', u ''Laptop'')]\<rparr>)
          [Message (PositionRemovedWhole (u ''Laptop'')) None, Ack, Message CartEmpty None]
   \<and> cart_actions (u ''cart:dec:c0'')
        \<lparr>stock = [(u ''Laptop'', 3), (u ''Scope'', 1)], ledger = example_ledger\<rparr>
        (cleared\<lparr>cart := Some [(u ''Laptop'', 2)], cart_map := Some [(u ''c0'', u ''Laptop'')]\<rparr>)
      = Done (cleared\<lparr>cart := Some [(u ''Laptop'', 1)],
                       cart_map := Some [(u ''c0'', u ''Laptop'')]\<rparr>)
          [Message (Decreased (u ''Laptop'') 1) None, Ack,
           Message (CartListing [(u ''Laptop'', 1)]) (Some (cart_keyboard [(u ''Laptop'', 1)]))]
   \<and> cart_actions (u ''cart:dec:c0'')
        \<lparr>stock = [(u ''Laptop'', 3), (u ''Scope'', 1)], ledger = example_ledger\<rparr>
        (cleared\<lparr>cart := Some [(u ''Laptop'', 1)], cart_map := Some [(u ''c0'', u ''Laptop'')]\<rparr>)
      = Done (cleared\<lparr>cart := Some [], cart_map := Some [(u ''c0'', u ''Laptop'')]\<rparr>)
          [Message (PositionRemoved (u ''Laptop'')) None, Ack, Message CartEmpty None]"
proof -
  let ?w = "\<lparr>stock = [(u ''Laptop'', 3), (u ''Scope'', 1)], ledger = example_ledger\<rparr>"
  let ?s1 = "cleared\<lparr>callback_map := Some [(u ''i0'', u ''Laptop'')]\<rparr>"
  let ?s2 = "cleared\<lparr>cart := Some [(u ''Laptop'', 2)], cart_map := Some [(u ''c0'', u ''Laptop'')]\<rparr>"
  let ?s3 = "cleared\<lparr>cart := Some [(u ''Laptop'', 1)], cart_map := Some [(u ''c0'', u ''Laptop'')]\<rparr>"
  have m: "map (\<lambda>idx. (item_key idx, fst (stock ?w ! idx))) [0..<length (stock ?w)]
      = [(u ''i0'', u ''Laptop''), (u ''i1'', u ''Scope'')]"
    by (simp add: eval_keys upt_rec_numeral)
  from key_lookup_uses_current_map[of ?s1 "u ''i5''" ?w]
  have 1: "\<exists>kb. select_equipment (u ''select:i5'') ?w ?s1
      = Done (cleared\<lparr>callback_map := Some [(u ''i0'', u ''Laptop''), (u ''i1'', u ''Scope'')],
                       inv_page := Some 0\<rparr>)
          [Message ButtonStale (Some kb), Ack]"
    unfolding m by (auto simp: eval_keys cleared_def)
  from key_lookup_uses_current_map[of ?s2 "u ''c7''" ?w "u ''dec''"]
  have 2: "cart_actions (u ''cart:dec:c7'') ?w ?s2 = Done ?s2 [Message CartButtonStale None, Ack]"
    by (simp add: eval_keys cleared_def)
  from key_lookup_uses_current_map[of ?s1 "u ''i0''" ?w _ "u ''Laptop''"]
  have 3: "select_equipment (u ''select:i0'') ?w ?s1
      = Done (cleared\<lparr>callback_map := Some [(u ''i0'', u ''Laptop'')],
                       temp_select := Some (u ''i0'', u ''Laptop'', 1)\<rparr>)
          [Message (Selected (u ''Laptop'') 3 1) (Some (quantity_keyboard (u ''i0'') 1)), Ack]"
    by (simp add: eval_keys cleared_def dict_get_def)
  from key_lookup_uses_current_map[of ?s2 "u ''c0''" ?w _ "u ''Laptop''"]
  have 4: "cart_actions (u ''cart:remove:c0'') ?w ?s2
      = Done (cleared\<lparr>cart := Some [], cart_map := Some [(u ''c0'', u ''Laptop'')]\<rparr>)
          [Message (PositionRemovedWhole (u ''Laptop'')) None, Ack, Message CartEmpty None]"
    by (simp add: eval_keys cleared_def)
  from key_lookup_uses_current_map[of ?s2 "u ''c0''" ?w _ "u ''Laptop''"]
  have 5: "cart_actions (u ''cart:dec:c0'') ?w ?s2
      = Done (cleared\<lparr>cart := Some [(u ''Laptop'', 1)],
                       cart_map := Some [(u ''c0'', u ''Laptop'')]\<rparr>)
          [Message (Decreased (u ''Laptop'') 1) None, Ack,
           Message (CartListing [(u ''Laptop'', 1)]) (Some (cart_keyboard [(u ''Laptop'', 1)]))]"
    by (simp add: eval_keys cleared_def dict_get_def Let_def)
  from key_lookup_uses_current_map[of ?s3 "u ''c0''" ?w _ "u ''Laptop''"]
  have 6: "cart_actions (u ''cart:dec:c0'') ?w ?s3
      = Done (cleared\<lparr>cart := Some [], cart_map := Some [(u ''c0'', u ''Laptop'')]\<rparr>)
          [Message (PositionRemoved (u ''Laptop'')) None, Ack, Message CartEmpty None]"
    by (simp add: eval_keys cleared_def dict_get_def Let_def)
  from 1 2 3 4 5 6 show ?thesis by simp
qed

text \<open>
  A cart with Laptop and Oscilloscope is shown: the key \<open>c0\<close> stands for Laptop.  The
  button \<open>cart:remove:c0\<close> of this listing is pressed: Laptop is removed and the cart is
  shown again, now with \<open>c0\<close> for Oscilloscope.  The same button of the first listing is
  pressed once more.  Its key is of the earlier map, where it stood for Laptop; it is
  resolved to Oscilloscope, and Oscilloscope is removed.
\<close>

theorem stale_cart_key_counterexample:
  "view_cart (cleared\<lparr>cart := Some [(u ''Laptop'', 1), (u ''Oscilloscope'', 1)]\<rparr>)
     = Done (cleared\<lparr>cart := Some [(u ''Laptop'', 1), (u ''Oscilloscope'', 1)],
                      cart_map := Some [(u ''c0'', u ''Laptop''), (u ''c1'', u ''Oscilloscope'')]\<rparr>)
         [Message (CartListing [(u ''Laptop'', 1), (u ''Oscilloscope'', 1)])
            (Some (cart_keyboard [(u ''Laptop'', 1), (u ''Oscilloscope'', 1)])), Ack]
   \<and> cart_actions (u ''cart:remove:c0'') \<lparr>stock = [], ledger = example_ledger\<rparr>
       (cleared\<lparr>cart := Some [(u ''Laptop'', 1), (u ''Oscilloscope'', 1)],
                 cart_map := Some [(u ''c0'', u ''Laptop''), (u ''c1'', u ''Oscilloscope'')]\<rparr>)
     = Done (cleared\<lparr>cart := Some [(u ''Oscilloscope'', 1)],
                      cart_map := Some [(u ''c0'', u ''Oscilloscope'')]\<rparr>)
         [Message (PositionRemovedWhole (u ''Laptop'')) None, Ack,
          Message (CartListing [(u ''Oscilloscope'', 1)])
            (Some (cart_keyboard [(u ''Oscilloscope'', 1)]))]
   \<and> cart_actions (u ''cart:remove:c0'') \<lparr>stock = [], ledger = example_ledger\<rparr>
       (cleared\<lparr>cart := Some [(u ''Oscilloscope'', 1)],
                 cart_map := Some [(u ''c0'', u ''Oscilloscope'')]\<rparr>)
     = Done (cleared\<lparr>cart := Some [], cart_map := Some [(u ''c0'', u ''Oscilloscope'')]\<rparr>)
         [Message (PositionRemovedWhole (u ''Oscilloscope'')) None, Ack, Message CartEmpty None]"
  by (simp add: eval_keys cleared_def cart_actions_def Let_def)

section \<open>The check at the confirmation\<close>













end
